theory Spec2Isabelle
  imports Main "HOL-Library.Sublist" "HOL-Library.AList" "HOL-Library.Word"
begin

section \<open>Data model\<close>

text \<open>
  Go strings and byte slices whose nil-ness the program never tests are character lists
  (\<open>string\<close>); the conversions \<open>[]byte(s)\<close> and \<open>string(b)\<close> are the identity.
  A Go \<open>error\<close> value is its message.
\<close>

datatype error = Error string

text \<open>
  \<open>net.IP\<close> and \<open>net.IPMask\<close> are byte slices that the program compares with \<open>nil\<close>:
  \<open>None\<close> is the nil slice, \<open>Some bs\<close> a non-nil slice holding \<open>bs\<close>.
\<close>

type_synonym IP = "8 word list option"

record IPNet =
  ipnet_IP :: IP
  ipnet_Mask :: IP

text \<open>\<open>netlink.Addr\<close>: an embedded \<open>*net.IPNet\<close> and a label.\<close>

record Addr =
  addr_IPNet :: "IPNet option"
  addr_Label :: string

text \<open>\<open>netlink.Route\<close>, the fields the program reads.\<close>

record Route =
  route_Dst :: "IPNet option"
  route_Src :: IP
  route_Gw :: IP

text \<open>\<open>netlink.Link\<close>: the program reads only \<open>Attrs().MTU\<close>; the name identifies the link.\<close>

record Link =
  link_Name :: string
  link_MTU :: int

text \<open>\<open>network.VIF\<close>; \<open>Routes\<close> is a pointer to a slice.\<close>

record VIF =
  vif_Name :: string
  vif_IP :: Addr
  vif_MAC :: "8 word list"
  vif_Routes :: "Route list option"
  vif_Mtu :: "16 word"

text \<open>The KubeVirt API types, restricted to the fields the program reads.\<close>

record MultusNetwork =
  multus_NetworkName :: string
  multus_Default :: bool

record GenieNetwork =
  genie_NetworkName :: string

record Network =
  net_Name :: string
  net_Pod :: "unit option"
  net_Multus :: "MultusNetwork option"
  net_Genie :: "GenieNetwork option"

record Interface =
  iface_Name :: string
  iface_Bridge :: "unit option"
  iface_Slirp :: "unit option"
  iface_Masquerade :: "unit option"
  iface_SRIOV :: "unit option"

record VirtualMachineInstance =
  vmi_Hostname :: string
  vmi_Networks :: "Network list"
  vmi_Interfaces :: "Interface list"

record CloudInitNoCloudSource =
  UserDataSecretRef :: "string option"
  UserDataBase64 :: string
  UserData :: string
  NetworkDataSecretRef :: "string option"
  NetworkDataBase64 :: string
  NetworkData :: string

text \<open>The cloud-init documents of \<open>cloudinit.go\<close>.\<close>

record CloudInitSubnetRoute =
  sr_Network :: string
  sr_Netmask :: string
  sr_Gateway :: string

record CloudInitSubnet =
  sn_SubnetType :: string
  sn_Address :: string
  sn_Gateway :: string
  sn_Routes :: "CloudInitSubnetRoute list"

record CloudInitNetworkInterface =
  nif_NetworkType :: string
  nif_Name :: string
  nif_MacAddress :: string
  nif_Mtu :: "16 word"
  nif_Subnets :: "CloudInitSubnet list"
  nif_Address :: "string list"
  nif_Search :: "string list"
  nif_Destination :: string
  nif_Gateway :: string
  nif_Metric :: int

record CloudInitNetConfig =
  cfg_Version :: int
  cfg_Config :: "CloudInitNetworkInterface list"

record CloudInitResolvConf =
  rc_NameServers :: "string list"
  rc_SearchDomains :: "string list"
  rc_Domain :: string

record CloudInitManageResolv =
  mr_ManageResolv :: bool
  mr_ResolvConf :: CloudInitResolvConf

section \<open>The process and its collaborators\<close>

text \<open>
  Everything the program calls but does not define is a field of the environment: the
  host network handler (\<open>network.Handler\<close>), the pod's resolver query, and the library
  functions that render, encode and serialise (\<open>net\<close>, \<open>encoding/base64\<close>,
  \<open>encoding/json\<close>, \<open>yaml.v2\<close>). A library call that returns a value and an error is a
  pair, as in Go. \<open>HostsIpAddress\<close> is the package variable written before the server starts.
\<close>

record env =
  HostsIpAddress :: string
  LinkByName :: "string \<Rightarrow> error + Link"
  AddrList :: "Link \<Rightarrow> error + Addr list"
  GetMacDetails :: "string \<Rightarrow> error + 8 word list"
  RouteList :: "Link \<Rightarrow> error + Route list"
  getResolvConfDetailsFromPod :: "error + (8 word list option list \<times> string list)"
  IP_String :: "IP \<Rightarrow> string"
  Addr_String :: "Addr \<Rightarrow> string"
  HardwareAddr_String :: "8 word list \<Rightarrow> string"
  DecodeString :: "string \<Rightarrow> string \<times> error option"
  EncodeToString :: "string \<Rightarrow> string"
  yaml_Marshal_config :: "CloudInitNetConfig \<Rightarrow> string \<times> error option"
  yaml_Marshal_resolv :: "CloudInitManageResolv \<Rightarrow> string \<times> error option"
  json_Unmarshal_vmi :: "string \<Rightarrow> error + VirtualMachineInstance"
  json_Unmarshal_cloudInit :: "string \<Rightarrow> error + CloudInitNoCloudSource"
  json_Marshal_cloudInit :: "CloudInitNoCloudSource \<Rightarrow> string \<times> error option"
  Sprintf_v :: "CloudInitNoCloudSource \<Rightarrow> string"

text \<open>
  The mutable state of the process: the package variable \<open>disableResolv\<close>, and the host
  queries made so far, in order (a log the model adds to observe them).
\<close>

datatype hostcall =
  CallLinkByName string
  | CallAddrList string
  | CallGetMacDetails string
  | CallRouteList string
  | CallGetResolvConf

record world =
  disableResolv :: bool
  hostCalls :: "hostcall list"

text \<open>A handler either returns to the caller or panics.\<close>

datatype 'a outcome = Panic error | Return 'a

record PreCloudInitIsoParams =
  params_CloudInitData :: string
  params_Vmi :: string

section \<open>User data (\<open>cloudinit.go\<close>)\<close>

text \<open>
  \<open>setUserData\<close>. In the \<open>UserDataBase64\<close> branch the source writes
  \<open>userData, err := base64.StdEncoding.DecodeString(...)\<close>: the short declaration
  introduces a new \<open>userData\<close> (and \<open>err\<close>) local to that block (\<open>userData'\<close> below);
  the function's own \<open>userData\<close> is not assigned there.
\<close>

definition setUserData :: "env \<Rightarrow> CloudInitNoCloudSource \<Rightarrow> string \<times> error option" where
  "setUserData e cloudInitData =
     (let userData0 = [];
          finish = (\<lambda>userData.
            if length userData = 0 then (''#cloud-config\<newline>'', None)
            else (userData, None))
      in if UserData cloudInitData \<noteq> [] then finish (UserData cloudInitData)
         else if UserDataBase64 cloudInitData \<noteq> [] then
           (case DecodeString e (UserDataBase64 cloudInitData) of
              (userData', Some err) \<Rightarrow> (userData', Some err)
            | (userData', None) \<Rightarrow> finish userData0)
         else finish userData0)"

definition bootStr :: "string \<Rightarrow> string \<Rightarrow> string" where
  "bootStr hostsIp hostname =
     ''bootcmd:\<newline>  - cloud-init-per instance etcHosts sh -c '' @ [CHR 0x22] @ ''echo ''
       @ hostsIp @ '' '' @ hostname @ '' >> /etc/hosts'' @ [CHR 0x22] @ ''\<newline>''"

text \<open>The two halves of \<open>setAdditionalData\<close>, in the order the source runs them.\<close>

definition appendResolv :: "string \<Rightarrow> string \<Rightarrow> string" where
  "appendResolv resolvData userData =
     (if length resolvData > 0 then
        (if prefix ''#cloud-config'' userData then
           (if sublist ''manage_resolv_conf:'' userData then userData
            else if length resolvData > 0 then userData @ ''\<newline>'' @ resolvData
            else userData)
         else userData)
      else userData)"

definition appendBootcmd :: "string \<Rightarrow> string \<Rightarrow> string \<Rightarrow> string" where
  "appendBootcmd hostsIp hostname userData =
     (if length hostsIp > 0 then
        (if prefix ''#cloud-config'' userData then userData @ bootStr hostsIp hostname
         else userData)
      else userData)"

definition setAdditionalData :: "env \<Rightarrow> string \<Rightarrow> string \<Rightarrow> string \<Rightarrow> string" where
  "setAdditionalData e hostname resolvData userData =
     appendBootcmd (HostsIpAddress e) hostname (appendResolv resolvData userData)"

section \<open>Interface discovery (\<open>cloudinit.go\<close>, second part)\<close>

text \<open>\<open>fmt.Sprintf("%d", n)\<close> for a Go \<open>int\<close>: decimal digits, a minus sign when negative.\<close>

fun nat_dec :: "nat \<Rightarrow> string" where
  "nat_dec n = (if n < 10 then [''0123456789'' ! n]
                else nat_dec (n div 10) @ [''0123456789'' ! (n mod 10)])"

declare nat_dec.simps [simp del]

definition Sprintf_d :: "int \<Rightarrow> string" where
  "Sprintf_d i = (if i < 0 then ''-'' @ nat_dec (nat (- i)) else nat_dec (nat i))"

text \<open>
  \<open>net.IP.Equal\<close>: equal lengths and bytes, or an IPv4 address against its 16-byte
  IPv4-in-IPv6 form. A nil slice has length 0.
\<close>

definition IP_bytes :: "IP \<Rightarrow> 8 word list" where
  "IP_bytes ip = (case ip of None \<Rightarrow> [] | Some bs \<Rightarrow> bs)"

definition v4InV6Prefix :: "8 word list" where
  "v4InV6Prefix = [0, 0, 0, 0, 0, 0, 0, 0, 0, 0, 0xff, 0xff]"

definition IP_Equal :: "IP \<Rightarrow> IP \<Rightarrow> bool" where
  "IP_Equal ip x =
     (let a = IP_bytes ip; b = IP_bytes x
      in if length a = length b then a = b
         else if length a = 4 \<and> length b = 16 then take 12 b = v4InV6Prefix \<and> a = drop 12 b
         else if length a = 16 \<and> length b = 4 then take 12 a = v4InV6Prefix \<and> drop 12 a = b
         else False)"

definition logCall :: "hostcall \<Rightarrow> world \<Rightarrow> world" where
  "logCall c w = w\<lparr>hostCalls := hostCalls w @ [c]\<rparr>"

text \<open>
  \<open>setNetworkInfo\<close>. The two Go maps are association lists filled with \<open>AList.update\<close>
  (keys stay distinct, so \<open>len(cniNetworks)\<close> is the length of the list); lookup is
  \<open>map_of\<close>. \<open>len(cniNetworks)\<close> is read before the assignment it feeds.
\<close>

fun setNetworkInfo_loop ::
  "Network list \<Rightarrow> (string \<times> Network) list \<Rightarrow> (string \<times> int) list \<Rightarrow> int
     \<Rightarrow> (string \<times> Network) list \<times> (string \<times> int) list" where
  "setNetworkInfo_loop [] networks cniNetworks multusNetworkIndex = (networks, cniNetworks)"
| "setNetworkInfo_loop (vmiNetwork # rest) networks cniNetworks multusNetworkIndex =
     (let (cni1, idx1) =
            (case net_Multus vmiNetwork of
               None \<Rightarrow> (cniNetworks, multusNetworkIndex)
             | Some m \<Rightarrow>
                 if multus_Default m
                 then (AList.update (net_Name vmiNetwork) 0 cniNetworks, multusNetworkIndex)
                 else (AList.update (net_Name vmiNetwork) multusNetworkIndex cniNetworks,
                       multusNetworkIndex + 1));
          cni2 =
            (case net_Genie vmiNetwork of
               None \<Rightarrow> cni1
             | Some g \<Rightarrow> AList.update (net_Name vmiNetwork) (int (length cni1)) cni1)
      in setNetworkInfo_loop rest
           (AList.update (net_Name vmiNetwork) vmiNetwork networks) cni2 idx1)"

definition setNetworkInfo ::
  "VirtualMachineInstance \<Rightarrow> (string \<times> Network) list \<times> (string \<times> int) list" where
  "setNetworkInfo vmi = setNetworkInfo_loop (vmi_Networks vmi) [] [] 1"

definition zeroVIF :: VIF where
  "zeroVIF = \<lparr>vif_Name = [], vif_IP = \<lparr>addr_IPNet = None, addr_Label = []\<rparr>,
              vif_MAC = [], vif_Routes = None, vif_Mtu = 0\<rparr>"

text \<open>
  \<open>getNetworkDetails\<close>: four host queries in order, each logged; the first failure
  returns the interface built so far with the error.
\<close>

definition getNetworkDetails_routes ::
  "env \<Rightarrow> Link \<Rightarrow> VIF \<Rightarrow> world \<Rightarrow> (VIF \<times> error option) \<times> world" where
  "getNetworkDetails_routes e link vif w =
     (let w1 = logCall (CallRouteList (link_Name link)) w
      in case RouteList e link of
           Inl err \<Rightarrow> ((vif, Some err), w1)
         | Inr routes \<Rightarrow>
             ((vif\<lparr>vif_Routes := Some routes, vif_Mtu := word_of_int (link_MTU link)\<rparr>, None), w1))"

definition getNetworkDetails :: "env \<Rightarrow> string \<Rightarrow> world \<Rightarrow> (VIF \<times> error option) \<times> world" where
  "getNetworkDetails e intName w =
     (let vif = zeroVIF\<lparr>vif_Name := intName\<rparr>;
          w1 = logCall (CallLinkByName (vif_Name vif)) w
      in case LinkByName e (vif_Name vif) of
           Inl err \<Rightarrow> ((vif, Some err), w1)
         | Inr link \<Rightarrow>
             (let w2 = logCall (CallAddrList (link_Name link)) w1
              in case AddrList e link of
                   Inl err \<Rightarrow> ((vif, Some err), w2)
                 | Inr addrList \<Rightarrow>
                     (let vif1 = (case addrList of [] \<Rightarrow> vif | a # _ \<Rightarrow> vif\<lparr>vif_IP := a\<rparr>)
                      in if length (vif_MAC vif1) = 0 then
                           (let w3 = logCall (CallGetMacDetails (vif_Name vif1)) w2
                            in case GetMacDetails e (vif_Name vif1) of
                                 Inl err \<Rightarrow> ((vif1, Some err), w3)
                               | Inr mac \<Rightarrow>
                                   getNetworkDetails_routes e link (vif1\<lparr>vif_MAC := mac\<rparr>) w3)
                         else getNetworkDetails_routes e link vif1 w2)))"

text \<open>The link-name prefix chosen inside the loop of \<open>getSriovNetworkInfo\<close>.\<close>

definition linkPrefix :: "Network \<Rightarrow> string" where
  "linkPrefix net =
     (case net_Multus net of
        Some m \<Rightarrow> if multus_Default m then ''eth'' else ''net''
      | None \<Rightarrow> (case net_Genie net of Some g \<Rightarrow> ''eth'' | None \<Rightarrow> []))"

text \<open>
  The link name the loop passes to \<open>getNetworkDetails\<close> for an interface,
  \<open>fmt.Sprintf("%s%d", prefix, value)\<close>, read from the two maps.
\<close>

definition linkNameOf ::
  "(string \<times> Network) list \<Rightarrow> (string \<times> int) list \<Rightarrow> Interface \<Rightarrow> string" where
  "linkNameOf networks cni i =
     linkPrefix (the (map_of networks (iface_Name i))) @ Sprintf_d (the (map_of cni (iface_Name i)))"

text \<open>
  The loop of \<open>getSriovNetworkInfo\<close> over the domain interfaces; \<open>sriovVifs\<close> is the
  slice built so far. Each early \<open>return\<close> of the source ends the recursion.
\<close>

fun getSriovNetworkInfo_loop ::
  "env \<Rightarrow> (string \<times> Network) list \<Rightarrow> (string \<times> int) list \<Rightarrow> Interface list
     \<Rightarrow> VIF list \<Rightarrow> world \<Rightarrow> (VIF list \<times> error option) \<times> world" where
  "getSriovNetworkInfo_loop e networks cniNetworks [] sriovVifs w = ((sriovVifs, None), w)"
| "getSriovNetworkInfo_loop e networks cniNetworks (iface # rest) sriovVifs w =
     (case map_of networks (iface_Name iface) of
        None \<Rightarrow>
          ((sriovVifs, Some (Error (''failed to find network '' @ iface_Name iface))), w)
      | Some net \<Rightarrow>
          (let w1 = (if iface_Bridge iface \<noteq> None \<or> iface_Masquerade iface \<noteq> None
                     then w\<lparr>disableResolv := True\<rparr> else w)
           in case map_of cniNetworks (iface_Name iface) of
                None \<Rightarrow> getSriovNetworkInfo_loop e networks cniNetworks rest sriovVifs w1
              | Some val \<Rightarrow>
                  if iface_SRIOV iface \<noteq> None then
                    (case getNetworkDetails e (linkPrefix net @ Sprintf_d val) w1 of
                       ((details, Some err), w2) \<Rightarrow> ((sriovVifs, Some err), w2)
                     | ((details, None), w2) \<Rightarrow>
                         getSriovNetworkInfo_loop e networks cniNetworks rest
                           (sriovVifs @ [details]) w2)
                  else getSriovNetworkInfo_loop e networks cniNetworks rest sriovVifs w1))"

definition getSriovNetworkInfo ::
  "env \<Rightarrow> VirtualMachineInstance \<Rightarrow> world \<Rightarrow> (VIF list \<times> error option) \<times> world" where
  "getSriovNetworkInfo e vmi w =
     (let (networks, cniNetworks) = setNetworkInfo vmi
      in case getSriovNetworkInfo_loop e networks cniNetworks (vmi_Interfaces vmi) [] w of
           ((sriovVifs, Some err), w1) \<Rightarrow> ((sriovVifs, Some err), w1)
         | ((sriovVifs, None), w1) \<Rightarrow>
             if length sriovVifs = 0
             then ((sriovVifs, Some (Error ''No SRIOV interfaces found'')), w1)
             else ((sriovVifs, None), w1))"

section \<open>Resolver state and document synthesis\<close>

definition zeroResolvConf :: CloudInitResolvConf where
  "zeroResolvConf = \<lparr>rc_NameServers = [], rc_SearchDomains = [], rc_Domain = []\<rparr>"

definition zeroManageResolv :: CloudInitManageResolv where
  "zeroManageResolv = \<lparr>mr_ManageResolv = False, mr_ResolvConf = zeroResolvConf\<rparr>"

text \<open>\<open>getCloudInitManageResolv\<close> reads the package variable \<open>disableResolv\<close>.\<close>

definition getCloudInitManageResolv ::
  "env \<Rightarrow> world \<Rightarrow> (CloudInitManageResolv \<times> error option) \<times> world" where
  "getCloudInitManageResolv e w =
     (if disableResolv w then ((zeroManageResolv, None), w)
      else
        (let w1 = logCall CallGetResolvConf w
         in case getResolvConfDetailsFromPod e of
              Inl err \<Rightarrow> ((zeroManageResolv, Some err), w1)
            | Inr (nameServers, searchDomains) \<Rightarrow>
                (let conf1 = foldl (\<lambda>c nameServer.
                                c\<lparr>rc_NameServers := rc_NameServers c @ [IP_String e nameServer]\<rparr>)
                              zeroResolvConf nameServers;
                     conf2 = foldl (\<lambda>c searchDomain.
                                c\<lparr>rc_SearchDomains := rc_SearchDomains c @ [searchDomain]\<rparr>)
                              conf1 searchDomains
                 in ((zeroManageResolv\<lparr>mr_ManageResolv := True, mr_ResolvConf := conf2\<rparr>, None),
                     w1))))"

definition nilDereference :: error where
  "nilDereference = Error ''runtime error: invalid memory address or nil pointer dereference''"

definition zeroSubnet :: CloudInitSubnet where
  "zeroSubnet = \<lparr>sn_SubnetType = [], sn_Address = [], sn_Gateway = [], sn_Routes = []\<rparr>"

definition zeroNif :: CloudInitNetworkInterface where
  "zeroNif = \<lparr>nif_NetworkType = [], nif_Name = [], nif_MacAddress = [], nif_Mtu = 0,
              nif_Subnets = [], nif_Address = [], nif_Search = [], nif_Destination = [],
              nif_Gateway = [], nif_Metric = 0\<rparr>"

text \<open>
  The second test of the route loop, \<open>route.Src != nil && route.Src.Equal(vif.IP.IP)\<close>:
  \<open>vif.IP.IP\<close> reads through the embedded \<open>*net.IPNet\<close>, and is evaluated only when the
  source address is not nil.
\<close>

definition isSelfRoute :: "Addr \<Rightarrow> Route \<Rightarrow> bool outcome" where
  "isSelfRoute ip route =
     (if route_Src route \<noteq> None then
        (case addr_IPNet ip of
           None \<Rightarrow> Panic nilDereference
         | Some n \<Rightarrow> Return (IP_Equal (route_Src route) (ipnet_IP n)))
      else Return False)"

definition isPlaceholderRoute :: "Route \<Rightarrow> bool" where
  "isPlaceholderRoute route =
     (route_Dst route = None \<and> IP_Equal (route_Src route) None \<and> IP_Equal (route_Gw route) None)"

definition toSubnetRoute :: "env \<Rightarrow> IPNet \<Rightarrow> Route \<Rightarrow> CloudInitSubnetRoute" where
  "toSubnetRoute e dst route =
     \<lparr>sr_Network = IP_String e (ipnet_IP dst),
      sr_Netmask = IP_String e (ipnet_Mask dst),
      sr_Gateway = (if route_Gw route \<noteq> None then IP_String e (route_Gw route) else [])\<rparr>"

text \<open>
  The loop over \<open>*vif.Routes\<close> in \<open>convertCloudInitNetworksToCloudInitNetConfig\<close>, on the
  two variables it updates, \<open>nifSubnet\<close> and \<open>nifRoutes\<close>.
\<close>

fun routesLoop ::
  "env \<Rightarrow> Addr \<Rightarrow> Route list \<Rightarrow> CloudInitSubnet \<Rightarrow> CloudInitSubnetRoute list
     \<Rightarrow> (CloudInitSubnet \<times> CloudInitSubnetRoute list) outcome" where
  "routesLoop e ip [] nifSubnet nifRoutes = Return (nifSubnet, nifRoutes)"
| "routesLoop e ip (route # rest) nifSubnet nifRoutes =
     (if isPlaceholderRoute route then routesLoop e ip rest nifSubnet nifRoutes
      else
        (case isSelfRoute ip route of
           Panic p \<Rightarrow> Panic p
         | Return self \<Rightarrow>
             if self then routesLoop e ip rest nifSubnet nifRoutes
             else
               (case route_Dst route of
                  None \<Rightarrow>
                    routesLoop e ip rest
                      (nifSubnet\<lparr>sn_Gateway := IP_String e (route_Gw route)\<rparr>) nifRoutes
                | Some dst \<Rightarrow>
                    routesLoop e ip rest nifSubnet (nifRoutes @ [toSubnetRoute e dst route]))))"

text \<open>One iteration of the outer loop: the entry built for one interface.\<close>

definition convertVif :: "env \<Rightarrow> VIF \<Rightarrow> CloudInitNetworkInterface outcome" where
  "convertVif e vif =
     (let nif = zeroNif\<lparr>nif_Name := vif_Name vif, nif_NetworkType := ''physical'',
                        nif_MacAddress := HardwareAddr_String e (vif_MAC vif),
                        nif_Mtu := vif_Mtu vif\<rparr>
      in if Addr_String e (vif_IP vif) = ''<nil>'' then
           Return (nif\<lparr>nif_Subnets :=
                     nif_Subnets nif @ [zeroSubnet\<lparr>sn_SubnetType := ''manual''\<rparr>]\<rparr>)
         else
           (let nifSubnet = zeroSubnet\<lparr>sn_SubnetType := ''static'',
                  sn_Address := takeWhile (\<lambda>c. c \<noteq> CHR '' '') (Addr_String e (vif_IP vif))\<rparr>
            in case vif_Routes vif of
                 None \<Rightarrow> Panic nilDereference
               | Some routes \<Rightarrow>
                   (case routesLoop e (vif_IP vif) routes nifSubnet [] of
                      Panic p \<Rightarrow> Panic p
                    | Return (nifSubnet', nifRoutes) \<Rightarrow>
                        Return (nif\<lparr>nif_Subnets :=
                                  nif_Subnets nif @ [nifSubnet'\<lparr>sn_Routes := nifRoutes\<rparr>]\<rparr>))))"

fun convertCloudInitNetworksToCloudInitNetConfig ::
  "env \<Rightarrow> VIF list \<Rightarrow> CloudInitNetConfig \<Rightarrow> CloudInitNetConfig outcome" where
  "convertCloudInitNetworksToCloudInitNetConfig e [] config = Return config"
| "convertCloudInitNetworksToCloudInitNetConfig e (vif # rest) config =
     (case convertVif e vif of
        Panic p \<Rightarrow> Panic p
      | Return nif \<Rightarrow>
          convertCloudInitNetworksToCloudInitNetConfig e rest
            (config\<lparr>cfg_Config := cfg_Config config @ [nif]\<rparr>))"

text \<open>
  \<open>cloudInitDiscoverNetworkData\<close> returns the network document, the resolver document
  and the error; \<open>[]\<close> is the nil slice a document starts as.
\<close>

definition cloudInitDiscoverNetworkData ::
  "env \<Rightarrow> VirtualMachineInstance \<Rightarrow> world
     \<Rightarrow> ((string \<times> string \<times> error option) \<times> world) outcome" where
  "cloudInitDiscoverNetworkData e vmi w =
     (case getSriovNetworkInfo e vmi w of
        ((cloudInitNetworks, Some err), w1) \<Rightarrow> Return (([], [], Some err), w1)
      | ((cloudInitNetworks, None), w1) \<Rightarrow>
          if length cloudInitNetworks = 0 then Return (([], [], None), w1)
          else
            (case convertCloudInitNetworksToCloudInitNetConfig e cloudInitNetworks
                    \<lparr>cfg_Version = 1, cfg_Config = []\<rparr> of
               Panic p \<Rightarrow> Panic p
             | Return config \<Rightarrow>
                 (case yaml_Marshal_config e config of
                    (networkFile, Some err) \<Rightarrow> Return ((networkFile, [], Some err), w1)
                  | (networkFile, None) \<Rightarrow>
                      (case getCloudInitManageResolv e w1 of
                         ((cloudInitManageResolv, Some err), w2) \<Rightarrow>
                           Return ((networkFile, [], Some err), w2)
                       | ((cloudInitManageResolv, None), w2) \<Rightarrow>
                           if mr_ManageResolv cloudInitManageResolv then
                             (case yaml_Marshal_resolv e cloudInitManageResolv of
                                (resolvFile, Some err) \<Rightarrow>
                                  Return ((networkFile, resolvFile, Some err), w2)
                              | (resolvFile, None) \<Rightarrow>
                                  Return ((networkFile, resolvFile, None), w2))
                           else Return ((networkFile, [], None), w2)))))"

section \<open>The request handler\<close>

definition getCloudInitData ::
  "env \<Rightarrow> PreCloudInitIsoParams \<Rightarrow> (CloudInitNoCloudSource \<times> VirtualMachineInstance) outcome" where
  "getCloudInitData e params =
     (case json_Unmarshal_vmi e (params_Vmi params) of
        Inl err \<Rightarrow> Panic err
      | Inr vmi \<Rightarrow>
          (case json_Unmarshal_cloudInit e (params_CloudInitData params) of
             Inl err \<Rightarrow> Panic err
           | Inr cloudInitData \<Rightarrow> Return (cloudInitData, vmi)))"

text \<open>
  \<open>PreCloudInitIso\<close> returns the \<open>CloudInitData\<close> bytes of its result and the error, or
  panics. The state it leaves is returned with them.
\<close>

definition PreCloudInitIso ::
  "env \<Rightarrow> PreCloudInitIsoParams \<Rightarrow> world \<Rightarrow> ((string \<times> error option) \<times> world) outcome" where
  "PreCloudInitIso e params w =
     (case getCloudInitData e params of
        Panic p \<Rightarrow> Panic p
      | Return (cloudInitData, vmi) \<Rightarrow>
          if NetworkData cloudInitData \<noteq> [] \<or> NetworkDataBase64 cloudInitData \<noteq> []
             \<or> NetworkDataSecretRef cloudInitData \<noteq> None
          then Return ((params_CloudInitData params, None), w)
          else
            (case cloudInitDiscoverNetworkData e vmi w of
               Panic p \<Rightarrow> Panic p
             | Return ((networkData, resolvData, Some err), w1) \<Rightarrow> Panic err
             | Return ((networkData, resolvData, None), w1) \<Rightarrow>
                 (case setUserData e cloudInitData of
                    (userData, Some err) \<Rightarrow>
                      Return ((params_CloudInitData params, Some err), w1)
                  | (userData, None) \<Rightarrow>
                      (let userData1 =
                             setAdditionalData e (vmi_Hostname vmi) resolvData userData;
                           cloudInitData1 = cloudInitData
                             \<lparr>UserDataBase64 := EncodeToString e userData1,
                              NetworkDataBase64 := EncodeToString e networkData,
                              UserData := []\<rparr>
                       in case json_Marshal_cloudInit e cloudInitData1 of
                            (response, Some err) \<Rightarrow>
                              Return ((params_CloudInitData params,
                                       Some (Error (''Failed to marshal CloudInitNoCloudSource: ''
                                                    @ Sprintf_v e cloudInitData1))), w1)
                          | (response, None) \<Rightarrow> Return ((response, None), w1)))))"

section \<open>The route rules as the specification words them\<close>

text \<open>
  The specification's four rules for the routes of an interface with a primary address,
  written as filters over the route list, to be compared with \<open>routesLoop\<close>:
  a placeholder route has no destination, no source and no gateway; a self-route has a
  source equal to the primary address; of the routes left, those without a destination
  set the gateway (the last one wins) and the others become the route list.
\<close>

definition spec_keptRoutes :: "IP \<Rightarrow> Route list \<Rightarrow> Route list" where
  "spec_keptRoutes primary routes =
     filter (\<lambda>r. \<not> (route_Dst r = None \<and> length (IP_bytes (route_Src r)) = 0
                       \<and> length (IP_bytes (route_Gw r)) = 0)
                \<and> \<not> (route_Src r \<noteq> None \<and> IP_Equal (route_Src r) primary))
       routes"

definition spec_gateway :: "env \<Rightarrow> IP \<Rightarrow> Route list \<Rightarrow> string" where
  "spec_gateway e primary routes =
     (case filter (\<lambda>r. route_Dst r = None) (spec_keptRoutes primary routes) of
        [] \<Rightarrow> []
      | r # rs \<Rightarrow> IP_String e (route_Gw (last (r # rs))))"

definition spec_routeList :: "env \<Rightarrow> IP \<Rightarrow> Route list \<Rightarrow> CloudInitSubnetRoute list" where
  "spec_routeList e primary routes =
     concat (map (\<lambda>r. case route_Dst r of
                          None \<Rightarrow> []
                        | Some dst \<Rightarrow>
                            [\<lparr>sr_Network = IP_String e (ipnet_IP dst),
                              sr_Netmask = IP_String e (ipnet_Mask dst),
                              sr_Gateway = (case route_Gw r of None \<Rightarrow> []
                                            | Some g \<Rightarrow> IP_String e (route_Gw r))\<rparr>])
                 (spec_keptRoutes primary routes))"

section \<open>An example host\<close>

text \<open>
  A concrete environment for the examples below: a host with the links \<open>eth0\<close>,
  \<open>net1\<close> and \<open>net2\<close>, of which \<open>eth0\<close> carries the address 10.0.0.5/24 and four
  routes, one of each kind the route loop distinguishes. The library functions are
  stand-ins that render the values of the examples (IPv4 addresses, canonical masks,
  plain YAML and JSON scalars); the decoder knows the one base64 payload the examples
  decode, and request payloads are named rather than spelled out. The theorems below
  hold for every environment; this one only instantiates them.
\<close>

definition b64_alphabet :: string where
  "b64_alphabet = ''ABCDEFGHIJKLMNOPQRSTUVWXYZabcdefghijklmnopqrstuvwxyz0123456789+/''"

fun b64_encode :: "nat list \<Rightarrow> string" where
  "b64_encode [] = []"
| "b64_encode [a] =
     [b64_alphabet ! (a div 4), b64_alphabet ! ((a mod 4) * 16), CHR ''='', CHR ''='']"
| "b64_encode [a, b] =
     [b64_alphabet ! (a div 4), b64_alphabet ! ((a mod 4) * 16 + b div 16),
      b64_alphabet ! ((b mod 16) * 4), CHR ''='']"
| "b64_encode (a # b # c # rest) =
     [b64_alphabet ! (a div 4), b64_alphabet ! ((a mod 4) * 16 + b div 16),
      b64_alphabet ! ((b mod 16) * 4 + c div 64), b64_alphabet ! (c mod 64)]
     @ b64_encode rest"

definition example_EncodeToString :: "string \<Rightarrow> string" where
  "example_EncodeToString s = b64_encode (map of_char s)"

definition example_DecodeString :: "string \<Rightarrow> string \<times> error option" where
  "example_DecodeString s =
     (if s = ''aGk='' then (''hi'', None)
      else ([], Some (Error ''illegal base64 data at input byte 0'')))"

definition join :: "string \<Rightarrow> string list \<Rightarrow> string" where
  "join sep xs = (case xs of [] \<Rightarrow> [] | x # rest \<Rightarrow> x @ concat (map (\<lambda>y. sep @ y) rest))"

definition example_IP_String :: "IP \<Rightarrow> string" where
  "example_IP_String ip =
     (if length (IP_bytes ip) = 0 then ''<nil>''
      else join ''.'' (map (\<lambda>b. nat_dec (unat b)) (IP_bytes ip)))"

fun bitCount :: "nat \<Rightarrow> nat" where
  "bitCount n = (if n = 0 then 0 else n mod 2 + bitCount (n div 2))"

declare bitCount.simps [simp del]

definition trimSpace :: "string \<Rightarrow> string" where
  "trimSpace s = rev (dropWhile (\<lambda>c. c = CHR '' '') (rev (dropWhile (\<lambda>c. c = CHR '' '') s)))"

definition example_Addr_String :: "Addr \<Rightarrow> string" where
  "example_Addr_String a =
     trimSpace
       ((case addr_IPNet a of
           None \<Rightarrow> ''<nil>''
         | Some n \<Rightarrow> example_IP_String (ipnet_IP n) @ ''/''
                      @ nat_dec (sum_list (map (\<lambda>b. bitCount (unat b)) (IP_bytes (ipnet_Mask n)))))
        @ '' '' @ addr_Label a)"

definition example_HardwareAddr_String :: "8 word list \<Rightarrow> string" where
  "example_HardwareAddr_String mac =
     join '':'' (map (\<lambda>b. [''0123456789abcdef'' ! (unat b div 16),
                            ''0123456789abcdef'' ! (unat b mod 16)]) mac)"

definition example_yaml_resolv :: "CloudInitManageResolv \<Rightarrow> string \<times> error option" where
  "example_yaml_resolv m =
     ((if mr_ManageResolv m then ''manage_resolv_conf: true\<newline>'' else [])
      @ ''resolv_conf:\<newline>''
      @ (if rc_NameServers (mr_ResolvConf m) = [] then []
         else ''  nameservers:\<newline>''
              @ concat (map (\<lambda>s. ''  - '' @ s @ ''\<newline>'') (rc_NameServers (mr_ResolvConf m))))
      @ (if rc_SearchDomains (mr_ResolvConf m) = [] then []
         else ''  searchdomains:\<newline>''
              @ concat (map (\<lambda>s. ''  - '' @ s @ ''\<newline>'') (rc_SearchDomains (mr_ResolvConf m)))),
      None)"

definition example_yaml_config :: "CloudInitNetConfig \<Rightarrow> string \<times> error option" where
  "example_yaml_config c =
     (''version: '' @ Sprintf_d (cfg_Version c) @ ''\<newline>config:\<newline>''
      @ concat (map (\<lambda>n.
          ''- type: '' @ nif_NetworkType n @ ''\<newline>''
          @ ''  name: '' @ nif_Name n @ ''\<newline>''
          @ ''  mac_address: '' @ nif_MacAddress n @ ''\<newline>''
          @ ''  mtu: '' @ nat_dec (unat (nif_Mtu n)) @ ''\<newline>''
          @ ''  subnets:\<newline>''
          @ concat (map (\<lambda>s.
              ''  - type: '' @ sn_SubnetType s @ ''\<newline>''
              @ (if sn_Address s = [] then [] else ''    address: '' @ sn_Address s @ ''\<newline>'')
              @ (if sn_Gateway s = [] then [] else ''    gateway: '' @ sn_Gateway s @ ''\<newline>'')
              @ (if sn_Routes s = [] then []
                 else ''    routes:\<newline>''
                      @ concat (map (\<lambda>r.
                          ''    - network: '' @ sr_Network r @ ''\<newline>''
                          @ ''      netmask: '' @ sr_Netmask r @ ''\<newline>''
                          @ (if sr_Gateway r = [] then []
                             else ''      gateway: '' @ sr_Gateway r @ ''\<newline>''))
                        (sn_Routes s))))
            (nif_Subnets n)))
        (cfg_Config c)),
      None)"

definition example_json_cloudInit :: "CloudInitNoCloudSource \<Rightarrow> string" where
  "example_json_cloudInit c =
     ''{'' @ join '','' (concat (map (\<lambda>(k, v).
                if v = [] then [] else [[CHR 0x22] @ k @ [CHR 0x22] @ '':'' @ [CHR 0x22] @ v @ [CHR 0x22]])
              [(''userDataBase64'', UserDataBase64 c), (''userData'', UserData c),
               (''networkDataBase64'', NetworkDataBase64 c), (''networkData'', NetworkData c)]))
     @ ''}''"

definition example_address :: Addr where
  "example_address =
     \<lparr>addr_IPNet = Some \<lparr>ipnet_IP = Some [10, 0, 0, 5], ipnet_Mask = Some [255, 255, 255, 0]\<rparr>,
      addr_Label = []\<rparr>"

definition example_routes :: "Route list" where
  "example_routes =
     [\<lparr>route_Dst = None, route_Src = None, route_Gw = None\<rparr>,
      \<lparr>route_Dst = None, route_Src = None, route_Gw = Some [10, 0, 0, 1]\<rparr>,
      \<lparr>route_Dst = Some \<lparr>ipnet_IP = Some [10, 0, 0, 0], ipnet_Mask = Some [255, 255, 255, 0]\<rparr>,
       route_Src = Some [10, 0, 0, 5], route_Gw = None\<rparr>,
      \<lparr>route_Dst = Some \<lparr>ipnet_IP = Some [192, 168, 0, 0], ipnet_Mask = Some [255, 255, 0, 0]\<rparr>,
       route_Src = None, route_Gw = Some [10, 0, 0, 254]\<rparr>]"

definition sriovInterface :: "string \<Rightarrow> Interface" where
  "sriovInterface name =
     \<lparr>iface_Name = name, iface_Bridge = None, iface_Slirp = None, iface_Masquerade = None,
      iface_SRIOV = Some ()\<rparr>"

definition bridgeInterface :: "string \<Rightarrow> Interface" where
  "bridgeInterface name =
     \<lparr>iface_Name = name, iface_Bridge = Some (), iface_Slirp = None, iface_Masquerade = None,
      iface_SRIOV = None\<rparr>"

definition multusNetwork :: "string \<Rightarrow> bool \<Rightarrow> Network" where
  "multusNetwork name dflt =
     \<lparr>net_Name = name, net_Pod = None,
      net_Multus = Some \<lparr>multus_NetworkName = name, multus_Default = dflt\<rparr>, net_Genie = None\<rparr>"

definition podNetwork :: "string \<Rightarrow> Network" where
  "podNetwork name = \<lparr>net_Name = name, net_Pod = Some (), net_Multus = None, net_Genie = None\<rparr>"

text \<open>
  The example requests: \<open>vmi_sriov\<close> has one SR-IOV interface on the default Multus
  network; \<open>vmi_bridge_sriov\<close> has a bridge interface on the pod network besides;
  \<open>vmi_plain\<close> has a bridge interface only; \<open>vmi_ghost\<close> has an SR-IOV interface
  followed by an interface whose network is not declared, \<open>vmi_ghost_first\<close> has
  the undeclared reference before its SR-IOV interface; \<open>vmi_three\<close> declares three
  Multus networks and references them out of order.
\<close>

definition vmi_sriov :: VirtualMachineInstance where
  "vmi_sriov = \<lparr>vmi_Hostname = ''vm-b'', vmi_Networks = [multusNetwork ''sriov'' True],
                vmi_Interfaces = [sriovInterface ''sriov'']\<rparr>"

definition vmi_bridge_sriov :: VirtualMachineInstance where
  "vmi_bridge_sriov =
     \<lparr>vmi_Hostname = ''vm-a'',
      vmi_Networks = [podNetwork ''pod'', multusNetwork ''sriov'' True],
      vmi_Interfaces = [bridgeInterface ''pod'', sriovInterface ''sriov'']\<rparr>"

definition vmi_plain :: VirtualMachineInstance where
  "vmi_plain = \<lparr>vmi_Hostname = ''vm-c'', vmi_Networks = [podNetwork ''pod''],
                vmi_Interfaces = [bridgeInterface ''pod'']\<rparr>"

definition vmi_ghost :: VirtualMachineInstance where
  "vmi_ghost = \<lparr>vmi_Hostname = ''vm-d'', vmi_Networks = [multusNetwork ''sriov'' True],
                vmi_Interfaces = [sriovInterface ''sriov'', sriovInterface ''ghost'']\<rparr>"

definition vmi_three :: VirtualMachineInstance where
  "vmi_three =
     \<lparr>vmi_Hostname = ''vm-e'',
      vmi_Networks = [multusNetwork ''A'' True, multusNetwork ''B'' False, multusNetwork ''C'' False],
      vmi_Interfaces = [sriovInterface ''C'', sriovInterface ''A'', sriovInterface ''B'']\<rparr>"

definition vmi_ghost_first :: VirtualMachineInstance where
  "vmi_ghost_first =
     \<lparr>vmi_Hostname = ''vm-f'',
      vmi_Networks = [podNetwork ''pod'', multusNetwork ''sriov'' True],
      vmi_Interfaces = [bridgeInterface ''pod'', sriovInterface ''ghost'', sriovInterface ''sriov'']\<rparr>"

definition emptyCloudInit :: CloudInitNoCloudSource where
  "emptyCloudInit =
     \<lparr>UserDataSecretRef = None, UserDataBase64 = [], UserData = [],
      NetworkDataSecretRef = None, NetworkDataBase64 = [], NetworkData = []\<rparr>"

definition exampleEnv :: env where
  "exampleEnv =
     \<lparr>HostsIpAddress = ''10.96.0.10'',
      LinkByName = (\<lambda>name. if name = ''eth0'' \<or> name = ''net1'' \<or> name = ''net2''
                            then Inr \<lparr>link_Name = name, link_MTU = 1500\<rparr>
                            else Inl (Error ''Link not found'')),
      AddrList = (\<lambda>link. if link_Name link = ''eth0'' then Inr [example_address] else Inr []),
      GetMacDetails = (\<lambda>name. Inr [0xaa, 0xbb, 0xcc, 0xdd, 0xee, 0xff]),
      RouteList = (\<lambda>link. if link_Name link = ''eth0'' then Inr example_routes else Inr []),
      getResolvConfDetailsFromPod = Inr ([Some [8, 8, 8, 8]], [''example.com'']),
      IP_String = example_IP_String,
      Addr_String = example_Addr_String,
      HardwareAddr_String = example_HardwareAddr_String,
      DecodeString = example_DecodeString,
      EncodeToString = example_EncodeToString,
      yaml_Marshal_config = example_yaml_config,
      yaml_Marshal_resolv = example_yaml_resolv,
      json_Unmarshal_vmi = (\<lambda>s.
        if s = ''vmi_sriov'' then Inr vmi_sriov
        else if s = ''vmi_bridge_sriov'' then Inr vmi_bridge_sriov
        else if s = ''vmi_plain'' then Inr vmi_plain
        else if s = ''vmi_ghost'' then Inr vmi_ghost
        else if s = ''vmi_three'' then Inr vmi_three
        else Inl (Error ''unexpected end of JSON input'')),
      json_Unmarshal_cloudInit = (\<lambda>s.
        if s = ''{}'' then Inr emptyCloudInit
        else if s = ''network'' then Inr (emptyCloudInit\<lparr>NetworkData := ''version: 1''\<rparr>)
        else if s = ''userDataBase64'' then Inr (emptyCloudInit\<lparr>UserDataBase64 := ''aGk=''\<rparr>)
        else Inl (Error ''unexpected end of JSON input'')),
      json_Marshal_cloudInit = (\<lambda>c. (example_json_cloudInit c, None)),
      Sprintf_v = example_json_cloudInit\<rparr>"

definition world0 :: world where
  "world0 = \<lparr>disableResolv = False, hostCalls = []\<rparr>"

text \<open>The interface state that \<open>getNetworkDetails\<close> builds for \<open>eth0\<close> on the example host.\<close>

definition example_vif :: VIF where
  "example_vif =
     \<lparr>vif_Name = ''eth0'', vif_IP = example_address,
      vif_MAC = [0xaa, 0xbb, 0xcc, 0xdd, 0xee, 0xff],
      vif_Routes = Some example_routes, vif_Mtu = 1500\<rparr>"

text \<open>
  Readers of a handler outcome: whether it returned without an error, the bytes it
  returned, and the process state a returning handler leaves to the next request.
\<close>

definition succeeded :: "((string \<times> error option) \<times> world) outcome \<Rightarrow> bool" where
  "succeeded r = (case r of Return ((doc, None), w) \<Rightarrow> True | _ \<Rightarrow> False)"

definition response :: "((string \<times> error option) \<times> world) outcome \<Rightarrow> string" where
  "response r = (case r of Return ((doc, err), w) \<Rightarrow> doc | Panic p \<Rightarrow> [])"

definition stateAfter :: "((string \<times> error option) \<times> world) outcome \<Rightarrow> world \<Rightarrow> world" where
  "stateAfter r w0 = (case r of Return ((doc, err), w) \<Rightarrow> w | Panic p \<Rightarrow> w0)"

definition resolvDocument ::
  "((string \<times> string \<times> error option) \<times> world) outcome \<Rightarrow> string" where
  "resolvDocument r = (case r of Return ((n, rd, err), w) \<Rightarrow> rd | Panic p \<Rightarrow> [])"

section \<open>Facts about the example host\<close>

lemma exampleEnv_HostsIpAddress: "HostsIpAddress exampleEnv = ''10.96.0.10''"
  and exampleEnv_DecodeString: "DecodeString exampleEnv = example_DecodeString"
  and exampleEnv_EncodeToString: "EncodeToString exampleEnv = example_EncodeToString"
  and exampleEnv_IP_String: "IP_String exampleEnv = example_IP_String"
  and exampleEnv_Addr_String: "Addr_String exampleEnv = example_Addr_String"
  and exampleEnv_HardwareAddr_String: "HardwareAddr_String exampleEnv = example_HardwareAddr_String"
  and exampleEnv_yaml_Marshal_config: "yaml_Marshal_config exampleEnv = example_yaml_config"
  and exampleEnv_yaml_Marshal_resolv: "yaml_Marshal_resolv exampleEnv = example_yaml_resolv"
  and exampleEnv_json_Marshal_cloudInit:
    "json_Marshal_cloudInit exampleEnv c = (example_json_cloudInit c, None)"
  and exampleEnv_getResolvConf:
    "getResolvConfDetailsFromPod exampleEnv = Inr ([Some [8, 8, 8, 8]], [''example.com''])"
  and exampleEnv_LinkByName:
    "LinkByName exampleEnv name =
       (if name = ''eth0'' \<or> name = ''net1'' \<or> name = ''net2''
        then Inr \<lparr>link_Name = name, link_MTU = 1500\<rparr>
        else Inl (Error ''Link not found''))"
  and exampleEnv_AddrList:
    "AddrList exampleEnv link =
       (if link_Name link = ''eth0'' then Inr [example_address] else Inr [])"
  and exampleEnv_GetMacDetails:
    "GetMacDetails exampleEnv name = Inr [0xaa, 0xbb, 0xcc, 0xdd, 0xee, 0xff]"
  and exampleEnv_RouteList:
    "RouteList exampleEnv link =
       (if link_Name link = ''eth0'' then Inr example_routes else Inr [])"
  and exampleEnv_json_Unmarshal_vmi:
    "json_Unmarshal_vmi exampleEnv s =
       (if s = ''vmi_sriov'' then Inr vmi_sriov
        else if s = ''vmi_bridge_sriov'' then Inr vmi_bridge_sriov
        else if s = ''vmi_plain'' then Inr vmi_plain
        else if s = ''vmi_ghost'' then Inr vmi_ghost
        else if s = ''vmi_three'' then Inr vmi_three
        else Inl (Error ''unexpected end of JSON input''))"
  and exampleEnv_json_Unmarshal_cloudInit:
    "json_Unmarshal_cloudInit exampleEnv s =
       (if s = ''{}'' then Inr emptyCloudInit
        else if s = ''network'' then Inr (emptyCloudInit\<lparr>NetworkData := ''version: 1''\<rparr>)
        else if s = ''userDataBase64'' then Inr (emptyCloudInit\<lparr>UserDataBase64 := ''aGk=''\<rparr>)
        else Inl (Error ''unexpected end of JSON input''))"
  unfolding exampleEnv_def by simp_all

lemmas exampleEnv_simps =
  exampleEnv_HostsIpAddress exampleEnv_DecodeString exampleEnv_EncodeToString
  exampleEnv_IP_String exampleEnv_Addr_String exampleEnv_HardwareAddr_String
  exampleEnv_yaml_Marshal_config exampleEnv_yaml_Marshal_resolv
  exampleEnv_json_Marshal_cloudInit exampleEnv_getResolvConf exampleEnv_LinkByName
  exampleEnv_AddrList exampleEnv_GetMacDetails exampleEnv_RouteList
  exampleEnv_json_Unmarshal_vmi exampleEnv_json_Unmarshal_cloudInit

section \<open>The user-data merger\<close>

lemma prefix_appendResolv:
  "prefix ''#cloud-config'' userData
     \<Longrightarrow> prefix ''#cloud-config'' (appendResolv resolvData userData)"
  unfolding appendResolv_def by (simp add: prefix_prefix)

lemma appendResolv_marker_kept:
  "sublist ''manage_resolv_conf:'' userData \<Longrightarrow> appendResolv resolvData userData = userData"
  unfolding appendResolv_def by simp

lemma appendResolv_nil: "appendResolv [] userData = userData"
  unfolding appendResolv_def by simp

lemma sublist_after_append: "sublist m r \<Longrightarrow> sublist m (u @ s @ r)"
  unfolding sublist_def by (metis append.assoc)

text \<open>
  Claim C2. With an empty \<open>UserData\<close> and a non-empty \<open>UserDataBase64\<close>, a decode
  error is returned to the caller with the bytes the decoder returned; but when decoding
  succeeds the decoded bytes are dropped, whatever they are, and \<open>setUserData\<close> returns
  the default header \<open>#cloud-config\<close> followed by a newline. The claim expects the
  decoded bytes.
\<close>

theorem setUserData_base64_discarded:
  assumes "UserData cloudInitData = []" and "UserDataBase64 cloudInitData \<noteq> []"
  shows "(DecodeString e (UserDataBase64 cloudInitData) = (decoded, None)
            \<longrightarrow> setUserData e cloudInitData = (''#cloud-config\<newline>'', None))
       \<and> (DecodeString e (UserDataBase64 cloudInitData) = (partial, Some err)
            \<longrightarrow> setUserData e cloudInitData = (partial, Some err))"
  using assms unfolding setUserData_def by simp

theorem setUserData_base64_discarded_witness:
  "UserData (emptyCloudInit\<lparr>UserDataBase64 := ''aGk=''\<rparr>) = []
   \<and> UserDataBase64 (emptyCloudInit\<lparr>UserDataBase64 := ''aGk=''\<rparr>) \<noteq> []
   \<and> DecodeString exampleEnv ''aGk='' = (''hi'', None)
   \<and> setUserData exampleEnv (emptyCloudInit\<lparr>UserDataBase64 := ''aGk=''\<rparr>)
       = (''#cloud-config\<newline>'', None)
   \<and> setUserData exampleEnv (emptyCloudInit\<lparr>UserDataBase64 := ''aGk=''\<rparr>) \<noteq> (''hi'', None)"
proof -
  let ?c = "emptyCloudInit\<lparr>UserDataBase64 := ''aGk=''\<rparr>"
  have h1: "UserData ?c = []" by (simp add: emptyCloudInit_def)
  have h2: "UserDataBase64 ?c \<noteq> []" by simp
  have h3: "DecodeString exampleEnv (UserDataBase64 ?c) = (''hi'', None)"
    by (simp add: exampleEnv_DecodeString example_DecodeString_def)
  from setUserData_base64_discarded [OF h1 h2, of exampleEnv "''hi''"] h3
  have "setUserData exampleEnv ?c = (''#cloud-config\<newline>'', None)" by blast
  with h1 h2 h3 show ?thesis by simp
qed

lemma example_yaml_resolv_marker:
  "mr_ManageResolv m \<Longrightarrow> sublist ''manage_resolv_conf:'' (fst (example_yaml_resolv m))"
proof -
  assume "mr_ManageResolv m"
  then obtain rest where "fst (example_yaml_resolv m) = ''manage_resolv_conf:'' @ rest"
    unfolding example_yaml_resolv_def by simp
  then show ?thesis by simp
qed

lemma discover_resolv_block:
  assumes "cloudInitDiscoverNetworkData e vmi w = Return ((n, r, err), w')"
  shows "r = [] \<or> (\<exists>m. mr_ManageResolv m \<and> r = fst (yaml_Marshal_resolv e m))"
proof -
  obtain v gerr w1 where g: "getSriovNetworkInfo e vmi w = ((v, gerr), w1)"
    by (metis prod.exhaust)
  show ?thesis
    using assms unfolding cloudInitDiscoverNetworkData_def g
    by (cases gerr)
       (auto split: if_splits outcome.splits prod.splits option.splits)
qed

lemma appendResolv_idem:
  assumes "resolvData = [] \<or> sublist ''manage_resolv_conf:'' resolvData"
  shows "appendResolv resolvData (appendResolv resolvData userData)
           = appendResolv resolvData userData"
proof (cases "resolvData \<noteq> [] \<and> prefix ''#cloud-config'' userData
              \<and> \<not> sublist ''manage_resolv_conf:'' userData")
  case True
  then have step: "appendResolv resolvData userData = userData @ ''\<newline>'' @ resolvData"
    unfolding appendResolv_def by simp
  from True assms have "sublist ''manage_resolv_conf:'' resolvData" by simp
  then have "sublist ''manage_resolv_conf:'' (userData @ ''\<newline>'' @ resolvData)"
    by (rule sublist_after_append)
  then show ?thesis
    unfolding step by (rule appendResolv_marker_kept)
next
  case False
  then have "appendResolv resolvData userData = userData"
    unfolding appendResolv_def by auto
  then show ?thesis by simp
qed

text \<open>
  Claim C7. The resolver-append step of \<open>setAdditionalData\<close> appends a newline and
  the resolver block when the block is non-empty and the document begins with
  \<open>#cloud-config\<close> and does not contain the marker \<open>manage_resolv_conf:\<close>; otherwise
  it leaves the document unchanged. A resolver block is what
  \<open>cloudInitDiscoverNetworkData\<close> returns: nothing, or the serialised
  \<open>CloudInitManageResolv\<close> with \<open>ManageResolv\<close> true, which carries the marker
  (the YAML key of that field). For every starting user-data document and every such
  block, applying the step twice yields the same bytes as applying it once, because
  after the first application the document contains the marker; with an empty
  hosts-IP-address the step is \<open>setAdditionalData\<close> itself.
\<close>

theorem resolver_append_idempotent:
  "(resolvData \<noteq> [] \<longrightarrow> sublist ''manage_resolv_conf:'' resolvData \<longrightarrow>
      appendResolv resolvData (appendResolv resolvData userData)
        = appendResolv resolvData userData
      \<and> (HostsIpAddress e = [] \<longrightarrow>
           setAdditionalData e hostname resolvData
               (setAdditionalData e hostname resolvData userData)
             = setAdditionalData e hostname resolvData userData))
   \<and> ((\<forall>m. mr_ManageResolv m \<longrightarrow> sublist ''manage_resolv_conf:'' (fst (yaml_Marshal_resolv e m)))
        \<longrightarrow> (\<forall>n r err w'. cloudInitDiscoverNetworkData e vmi w = Return ((n, r, err), w')
               \<longrightarrow> (r = [] \<or> sublist ''manage_resolv_conf:'' r)
                   \<and> appendResolv r (appendResolv r userData) = appendResolv r userData))
   \<and> appendResolv resolvData userData
        = (if resolvData \<noteq> [] \<and> prefix ''#cloud-config'' userData
              \<and> \<not> sublist ''manage_resolv_conf:'' userData
           then userData @ ''\<newline>'' @ resolvData else userData)"
proof -
  have nob: "appendBootcmd [] hostname u = u" for u
    unfolding appendBootcmd_def by simp
  have a: "appendResolv resolvData (appendResolv resolvData userData)
        = appendResolv resolvData userData
      \<and> (HostsIpAddress e = [] \<longrightarrow>
           setAdditionalData e hostname resolvData
               (setAdditionalData e hostname resolvData userData)
             = setAdditionalData e hostname resolvData userData)"
    if "sublist ''manage_resolv_conf:'' resolvData"
    using appendResolv_idem [of resolvData userData] that
    unfolding setAdditionalData_def by (simp add: nob)
  have b: "(r = [] \<or> sublist ''manage_resolv_conf:'' r)
                   \<and> appendResolv r (appendResolv r userData) = appendResolv r userData"
    if m: "\<forall>m. mr_ManageResolv m \<longrightarrow> sublist ''manage_resolv_conf:'' (fst (yaml_Marshal_resolv e m))"
      and d: "cloudInitDiscoverNetworkData e vmi w = Return ((n, r, err), w')" for n r err w'
  proof -
    from discover_resolv_block [OF d] m have "r = [] \<or> sublist ''manage_resolv_conf:'' r"
      by auto
    with appendResolv_idem [OF this] show ?thesis by simp
  qed
  have c: "appendResolv resolvData userData
        = (if resolvData \<noteq> [] \<and> prefix ''#cloud-config'' userData
              \<and> \<not> sublist ''manage_resolv_conf:'' userData
           then userData @ ''\<newline>'' @ resolvData else userData)"
    unfolding appendResolv_def by simp
  show ?thesis using a b c by blast
qed

theorem resolver_append_idempotent_witness:
  "resolvDocument (cloudInitDiscoverNetworkData exampleEnv vmi_sriov world0)
     = ''manage_resolv_conf: true\<newline>resolv_conf:\<newline>  nameservers:\<newline>  - 8.8.8.8\<newline>  searchdomains:\<newline>  - example.com\<newline>''
   \<and> appendResolv ''manage_resolv_conf: true\<newline>resolv_conf:\<newline>  nameservers:\<newline>  - 8.8.8.8\<newline>  searchdomains:\<newline>  - example.com\<newline>''
        ''#cloud-config\<newline>''
     = ''#cloud-config\<newline>\<newline>manage_resolv_conf: true\<newline>resolv_conf:\<newline>  nameservers:\<newline>  - 8.8.8.8\<newline>  searchdomains:\<newline>  - example.com\<newline>''
   \<and> appendResolv ''manage_resolv_conf: true\<newline>resolv_conf:\<newline>  nameservers:\<newline>  - 8.8.8.8\<newline>  searchdomains:\<newline>  - example.com\<newline>''
        (appendResolv ''manage_resolv_conf: true\<newline>resolv_conf:\<newline>  nameservers:\<newline>  - 8.8.8.8\<newline>  searchdomains:\<newline>  - example.com\<newline>''
           ''#cloud-config\<newline>'')
     = ''#cloud-config\<newline>\<newline>manage_resolv_conf: true\<newline>resolv_conf:\<newline>  nameservers:\<newline>  - 8.8.8.8\<newline>  searchdomains:\<newline>  - example.com\<newline>''"
proof -
  let ?R = "''manage_resolv_conf: true\<newline>resolv_conf:\<newline>  nameservers:\<newline>  - 8.8.8.8\<newline>  searchdomains:\<newline>  - example.com\<newline>''"
  have h: "\<forall>m. mr_ManageResolv m
             \<longrightarrow> sublist ''manage_resolv_conf:'' (fst (yaml_Marshal_resolv exampleEnv m))"
    by (simp add: exampleEnv_yaml_Marshal_resolv example_yaml_resolv_marker)
  have ok: "(case cloudInitDiscoverNetworkData exampleEnv vmi_sriov world0 of
               Return ((n, r, None), w') \<Rightarrow> r = ?R | _ \<Rightarrow> False)"
    by code_simp
  then obtain n w' where
    run: "cloudInitDiscoverNetworkData exampleEnv vmi_sriov world0 = Return ((n, ?R, None), w')"
    by (auto split: outcome.splits prod.splits option.splits)
  have doc: "resolvDocument (cloudInitDiscoverNetworkData exampleEnv vmi_sriov world0) = ?R"
    unfolding run resolvDocument_def by simp
  have once: "appendResolv ?R ''#cloud-config\<newline>'' = ''#cloud-config\<newline>\<newline>'' @ ?R"
    by (simp add: appendResolv_def sublist_code)
  from resolver_append_idempotent [where e = exampleEnv and vmi = vmi_sriov and w = world0
      and userData = "''#cloud-config\<newline>''"] h run
  have "appendResolv ?R (appendResolv ?R ''#cloud-config\<newline>'')
          = appendResolv ?R ''#cloud-config\<newline>''"
    by blast
  with doc once show ?thesis by simp
qed

text \<open>
  Claim C9. For every user-data document beginning with \<open>#cloud-config\<close> and a
  non-empty hosts-IP-address, \<open>setAdditionalData\<close> appends the bootcmd block to whatever
  the resolver step left, also to a document that already ends with the identical
  block. The block is the non-empty text \<open>bootcmd:\<close>, a newline, and the
  \<open>cloud-init-per\<close> line that echoes the hosts-IP-address and the hostname into
  \<open>/etc/hosts\<close>; so one application changes the document, and applying the
  hostname-augmentation step twice leaves the block twice, which differs from applying
  it once.
\<close>

theorem bootcmd_append_unguarded:
  assumes "prefix ''#cloud-config'' userData" and "HostsIpAddress e \<noteq> []"
  shows "setAdditionalData e hostname resolvData userData
           = appendResolv resolvData userData @ bootStr (HostsIpAddress e) hostname
    \<and> setAdditionalData e hostname [] (userData @ bootStr (HostsIpAddress e) hostname)
           = userData @ bootStr (HostsIpAddress e) hostname @ bootStr (HostsIpAddress e) hostname
    \<and> setAdditionalData e hostname [] (setAdditionalData e hostname [] userData)
           = userData @ bootStr (HostsIpAddress e) hostname @ bootStr (HostsIpAddress e) hostname
    \<and> bootStr (HostsIpAddress e) hostname
           = ''bootcmd:\<newline>  - cloud-init-per instance etcHosts sh -c '' @ [CHR 0x22]
             @ ''echo '' @ HostsIpAddress e @ '' '' @ hostname @ '' >> /etc/hosts''
             @ [CHR 0x22] @ ''\<newline>''
    \<and> bootStr (HostsIpAddress e) hostname \<noteq> []
    \<and> setAdditionalData e hostname [] userData \<noteq> userData
    \<and> setAdditionalData e hostname [] (setAdditionalData e hostname [] userData)
         \<noteq> setAdditionalData e hostname [] userData
    \<and> length (setAdditionalData e hostname [] (setAdditionalData e hostname [] userData))
         = length userData + 2 * length (bootStr (HostsIpAddress e) hostname)"
proof -
  have boot: "appendBootcmd (HostsIpAddress e) hostname u = u @ bootStr (HostsIpAddress e) hostname"
    if "prefix ''#cloud-config'' u" for u
    using that assms(2) unfolding appendBootcmd_def by simp
  have one: "setAdditionalData e hostname resolvData userData
           = appendResolv resolvData userData @ bootStr (HostsIpAddress e) hostname"
    unfolding setAdditionalData_def
    using boot [OF prefix_appendResolv [OF assms(1)]] .
  have p2: "prefix ''#cloud-config'' (userData @ bootStr (HostsIpAddress e) hostname)"
    using assms(1) by (rule prefix_prefix)
  have two: "setAdditionalData e hostname [] (userData @ bootStr (HostsIpAddress e) hostname)
           = userData @ bootStr (HostsIpAddress e) hostname @ bootStr (HostsIpAddress e) hostname"
    unfolding setAdditionalData_def appendResolv_nil using boot [OF p2] by simp
  have three: "setAdditionalData e hostname [] userData
                 = userData @ bootStr (HostsIpAddress e) hostname"
    unfolding setAdditionalData_def appendResolv_nil using boot [OF assms(1)] .
  have lit: "bootStr (HostsIpAddress e) hostname
           = ''bootcmd:\<newline>  - cloud-init-per instance etcHosts sh -c '' @ [CHR 0x22]
             @ ''echo '' @ HostsIpAddress e @ '' '' @ hostname @ '' >> /etc/hosts''
             @ [CHR 0x22] @ ''\<newline>''"
    unfolding bootStr_def by simp
  have ne: "bootStr (HostsIpAddress e) hostname \<noteq> []"
    unfolding bootStr_def by simp
  have four: "setAdditionalData e hostname [] (setAdditionalData e hostname [] userData)
                = setAdditionalData e hostname [] userData @ bootStr (HostsIpAddress e) hostname"
    unfolding three using two by simp
  have d1: "setAdditionalData e hostname [] userData \<noteq> userData"
    unfolding three using ne by simp
  have d2: "setAdditionalData e hostname [] (setAdditionalData e hostname [] userData)
         \<noteq> setAdditionalData e hostname [] userData"
    unfolding four using ne by simp
  have len: "length (setAdditionalData e hostname [] (setAdditionalData e hostname [] userData))
         = length userData + 2 * length (bootStr (HostsIpAddress e) hostname)"
    by (simp add: three two)
  have thrice: "setAdditionalData e hostname [] (setAdditionalData e hostname [] userData)
           = userData @ bootStr (HostsIpAddress e) hostname @ bootStr (HostsIpAddress e) hostname"
    by (simp add: three two)
  show ?thesis by (intro conjI; fact)
qed

theorem bootcmd_append_unguarded_witness:
  "prefix ''#cloud-config'' ''#cloud-config\<newline>'' \<and> HostsIpAddress exampleEnv = ''10.96.0.10''
   \<and> setAdditionalData exampleEnv ''vm'' [] ''#cloud-config\<newline>''
     = ''#cloud-config\<newline>bootcmd:\<newline>  - cloud-init-per instance etcHosts sh -c '' @ [CHR 0x22]
         @ ''echo 10.96.0.10 vm >> /etc/hosts'' @ [CHR 0x22] @ ''\<newline>''
   \<and> setAdditionalData exampleEnv ''vm'' []
        (setAdditionalData exampleEnv ''vm'' [] ''#cloud-config\<newline>'')
     = ''#cloud-config\<newline>bootcmd:\<newline>  - cloud-init-per instance etcHosts sh -c '' @ [CHR 0x22]
         @ ''echo 10.96.0.10 vm >> /etc/hosts'' @ [CHR 0x22]
         @ ''\<newline>bootcmd:\<newline>  - cloud-init-per instance etcHosts sh -c '' @ [CHR 0x22]
         @ ''echo 10.96.0.10 vm >> /etc/hosts'' @ [CHR 0x22] @ ''\<newline>''
   \<and> setAdditionalData exampleEnv ''vm'' []
        (setAdditionalData exampleEnv ''vm'' [] ''#cloud-config\<newline>'')
     \<noteq> setAdditionalData exampleEnv ''vm'' [] ''#cloud-config\<newline>''
   \<and> length (setAdditionalData exampleEnv ''vm'' []
        (setAdditionalData exampleEnv ''vm'' [] ''#cloud-config\<newline>'')) = 188"
proof -
  have h1: "prefix ''#cloud-config'' ''#cloud-config\<newline>''" by simp
  have ip: "HostsIpAddress exampleEnv = ''10.96.0.10''" by (rule exampleEnv_HostsIpAddress)
  have h2: "HostsIpAddress exampleEnv \<noteq> []" unfolding ip by simp
  note inst = bootcmd_append_unguarded [OF h1 h2, of "''vm''" "[]"]
  from inst have b: "bootStr (HostsIpAddress exampleEnv) ''vm''
      = ''bootcmd:\<newline>  - cloud-init-per instance etcHosts sh -c '' @ [CHR 0x22]
         @ ''echo 10.96.0.10 vm >> /etc/hosts'' @ [CHR 0x22] @ ''\<newline>''"
    unfolding ip by simp
  from inst have once: "setAdditionalData exampleEnv ''vm'' [] ''#cloud-config\<newline>''
      = ''#cloud-config\<newline>'' @ bootStr (HostsIpAddress exampleEnv) ''vm''"
    by (simp add: appendResolv_nil)
  from inst have twice: "setAdditionalData exampleEnv ''vm'' []
        (setAdditionalData exampleEnv ''vm'' [] ''#cloud-config\<newline>'')
      = ''#cloud-config\<newline>'' @ bootStr (HostsIpAddress exampleEnv) ''vm''
         @ bootStr (HostsIpAddress exampleEnv) ''vm''"
    by blast
  from inst have diff: "setAdditionalData exampleEnv ''vm'' []
        (setAdditionalData exampleEnv ''vm'' [] ''#cloud-config\<newline>'')
     \<noteq> setAdditionalData exampleEnv ''vm'' [] ''#cloud-config\<newline>''"
    by blast
  have once_lit: "setAdditionalData exampleEnv ''vm'' [] ''#cloud-config\<newline>''
     = ''#cloud-config\<newline>bootcmd:\<newline>  - cloud-init-per instance etcHosts sh -c '' @ [CHR 0x22]
         @ ''echo 10.96.0.10 vm >> /etc/hosts'' @ [CHR 0x22] @ ''\<newline>''"
    by (simp add: once b)
  have twice_lit: "setAdditionalData exampleEnv ''vm'' []
        (setAdditionalData exampleEnv ''vm'' [] ''#cloud-config\<newline>'')
     = ''#cloud-config\<newline>bootcmd:\<newline>  - cloud-init-per instance etcHosts sh -c '' @ [CHR 0x22]
         @ ''echo 10.96.0.10 vm >> /etc/hosts'' @ [CHR 0x22]
         @ ''\<newline>bootcmd:\<newline>  - cloud-init-per instance etcHosts sh -c '' @ [CHR 0x22]
         @ ''echo 10.96.0.10 vm >> /etc/hosts'' @ [CHR 0x22] @ ''\<newline>''"
    by (simp add: twice b)
  have len: "length (setAdditionalData exampleEnv ''vm'' []
        (setAdditionalData exampleEnv ''vm'' [] ''#cloud-config\<newline>'')) = 188"
    by (simp add: twice b)
  show ?thesis by (intro conjI; fact)
qed

section \<open>Pass-through of explicit network data\<close>

text \<open>
  Claim C8. When the incoming cloud-init source (as deserialised from the request)
  already sets \<open>NetworkData\<close>, \<open>NetworkDataBase64\<close> or \<open>NetworkDataSecretRef\<close>,
  \<open>PreCloudInitIso\<close> returns the request's own cloud-init bytes with no error, and
  the process state is untouched: no host query is made and \<open>disableResolv\<close> keeps
  its value.
\<close>

theorem networkData_passthrough:
  assumes "json_Unmarshal_vmi e (params_Vmi params) = Inr vmi"
    and "json_Unmarshal_cloudInit e (params_CloudInitData params) = Inr cloudInitData"
    and "NetworkData cloudInitData \<noteq> [] \<or> NetworkDataBase64 cloudInitData \<noteq> []
         \<or> NetworkDataSecretRef cloudInitData \<noteq> None"
  shows "PreCloudInitIso e params w = Return ((params_CloudInitData params, None), w)"
  using assms unfolding PreCloudInitIso_def getCloudInitData_def by auto

theorem networkData_passthrough_witness:
  "json_Unmarshal_vmi exampleEnv ''vmi_sriov'' = Inr vmi_sriov
   \<and> json_Unmarshal_cloudInit exampleEnv ''network''
        = Inr (emptyCloudInit\<lparr>NetworkData := ''version: 1''\<rparr>)
   \<and> NetworkData (emptyCloudInit\<lparr>NetworkData := ''version: 1''\<rparr>) \<noteq> []
   \<and> PreCloudInitIso exampleEnv \<lparr>params_CloudInitData = ''network'', params_Vmi = ''vmi_sriov''\<rparr>
        world0
     = Return ((''network'', None), world0)"
proof -
  let ?p = "\<lparr>params_CloudInitData = ''network'', params_Vmi = ''vmi_sriov''\<rparr>"
  let ?c = "emptyCloudInit\<lparr>NetworkData := ''version: 1''\<rparr>"
  have h1: "json_Unmarshal_vmi exampleEnv (params_Vmi ?p) = Inr vmi_sriov"
    by (simp add: exampleEnv_json_Unmarshal_vmi)
  have h2: "json_Unmarshal_cloudInit exampleEnv (params_CloudInitData ?p) = Inr ?c"
    by (simp add: exampleEnv_json_Unmarshal_cloudInit)
  have h3: "NetworkData ?c \<noteq> [] \<or> NetworkDataBase64 ?c \<noteq> [] \<or> NetworkDataSecretRef ?c \<noteq> None"
    by simp
  from networkData_passthrough [OF h1 h2 h3, of world0] h1 h2 show ?thesis by simp
qed

section \<open>Interface matching\<close>

lemma networks_of_setNetworkInfo_loop:
  "map_of (fst (setNetworkInfo_loop ns networks cni idx)) name = None
     \<longleftrightarrow> name \<notin> net_Name ` set ns \<and> map_of networks name = None"
proof (induction ns arbitrary: networks cni idx)
  case Nil
  then show ?case by simp
next
  case (Cons n ns)
  show ?case
    by (simp add: Let_def split_def Cons.IH update_conv' del: fun_upd_apply)
       (auto simp: fun_upd_apply)
qed

lemma networks_of_setNetworkInfo:
  "map_of (fst (setNetworkInfo vmi)) name = None
     \<longleftrightarrow> name \<notin> net_Name ` set (vmi_Networks vmi)"
  unfolding setNetworkInfo_def by (simp add: networks_of_setNetworkInfo_loop)

text \<open>
  Interfaces that all resolve and are not SR-IOV pass through the loop without a host
  query and without an error.
\<close>

lemma loop_without_sriov:
  assumes "\<forall>i\<in>set ifs. iface_SRIOV i = None \<and> map_of networks (iface_Name i) \<noteq> None"
  shows "\<exists>w'. getSriovNetworkInfo_loop e networks cni ifs vifs w = ((vifs, None), w')
              \<and> hostCalls w' = hostCalls w"
  using assms
proof (induction ifs arbitrary: w)
  case Nil
  then show ?case by simp
next
  case (Cons i ifs)
  from Cons.prems obtain net where net: "map_of networks (iface_Name i) = Some net"
    and nos: "iface_SRIOV i = None" by auto
  from Cons.prems
  have rest: "\<forall>i\<in>set ifs. iface_SRIOV i = None \<and> map_of networks (iface_Name i) \<noteq> None"
    by simp
  let ?w1 = "if iface_Bridge i \<noteq> None \<or> iface_Masquerade i \<noteq> None
             then w\<lparr>disableResolv := True\<rparr> else w"
  have step: "getSriovNetworkInfo_loop e networks cni (i # ifs) vifs w
                = getSriovNetworkInfo_loop e networks cni ifs vifs ?w1"
    using net nos by (simp add: Let_def split: option.splits)
  from Cons.IH [OF rest, of ?w1] obtain w' where
    "getSriovNetworkInfo_loop e networks cni ifs vifs ?w1 = ((vifs, None), w')"
    and "hostCalls w' = hostCalls ?w1" by blast
  then show ?case unfolding step by auto
qed

text \<open>The loop over a concatenation: an error in the first part ends it.\<close>

lemma loop_append:
  "getSriovNetworkInfo_loop e networks cni (pre @ rest) vifs w =
     (case getSriovNetworkInfo_loop e networks cni pre vifs w of
        ((v, Some err), w1) \<Rightarrow> ((v, Some err), w1)
      | ((v, None), w1) \<Rightarrow> getSriovNetworkInfo_loop e networks cni rest v w1)"
proof (induction pre arbitrary: vifs w)
  case Nil
  then show ?case by simp
next
  case (Cons i pre)
  show ?case
    by (simp add: Let_def Cons.IH split: option.splits prod.splits)
qed

text \<open>
  Claim C1, as amended. For a request whose cloud-init source sets no network-data
  field: every error that \<open>cloudInitDiscoverNetworkData\<close> returns makes
  \<open>PreCloudInitIso\<close> panic with that error; it is not returned to the caller. In
  particular, for every VM specification with zero SR-IOV-typed domain interfaces, all
  network references resolving, the discovery returns the distinguished error
  \<open>No SRIOV interfaces found\<close> with no documents and without a host query, and
  \<open>PreCloudInitIso\<close> panics with it.
\<close>

theorem discovery_error_panics:
  assumes "json_Unmarshal_vmi e (params_Vmi params) = Inr vmi"
    and "json_Unmarshal_cloudInit e (params_CloudInitData params) = Inr cloudInitData"
    and "NetworkData cloudInitData = []" and "NetworkDataBase64 cloudInitData = []"
    and "NetworkDataSecretRef cloudInitData = None"
  shows "(\<forall>n r err w'. cloudInitDiscoverNetworkData e vmi w = Return ((n, r, Some err), w')
            \<longrightarrow> PreCloudInitIso e params w = Panic err)
       \<and> ((\<forall>i\<in>set (vmi_Interfaces vmi).
              iface_SRIOV i = None \<and> iface_Name i \<in> net_Name ` set (vmi_Networks vmi))
            \<longrightarrow> (\<exists>w'. cloudInitDiscoverNetworkData e vmi w
                        = Return (([], [], Some (Error ''No SRIOV interfaces found'')), w')
                      \<and> hostCalls w' = hostCalls w)
                \<and> PreCloudInitIso e params w = Panic (Error ''No SRIOV interfaces found''))"
proof -
  have panics: "PreCloudInitIso e params w = Panic err"
    if "cloudInitDiscoverNetworkData e vmi w = Return ((n, r, Some err), w')" for n r err w'
    using that assms unfolding PreCloudInitIso_def getCloudInitData_def by simp
  have empty: "\<exists>w'. cloudInitDiscoverNetworkData e vmi w
                        = Return (([], [], Some (Error ''No SRIOV interfaces found'')), w')
                      \<and> hostCalls w' = hostCalls w"
    if none: "\<forall>i\<in>set (vmi_Interfaces vmi).
              iface_SRIOV i = None \<and> iface_Name i \<in> net_Name ` set (vmi_Networks vmi)"
  proof -
    obtain networks cni where ni: "setNetworkInfo vmi = (networks, cni)"
      by (cases "setNetworkInfo vmi")
    have "\<forall>i\<in>set (vmi_Interfaces vmi).
            iface_SRIOV i = None \<and> map_of networks (iface_Name i) \<noteq> None"
      using none networks_of_setNetworkInfo [of vmi] ni by simp
    from loop_without_sriov [OF this, of e cni "[]" w] obtain w' where
      l: "getSriovNetworkInfo_loop e networks cni (vmi_Interfaces vmi) [] w = (([], None), w')"
      and h: "hostCalls w' = hostCalls w" by blast
    have "getSriovNetworkInfo e vmi w = (([], Some (Error ''No SRIOV interfaces found'')), w')"
      unfolding getSriovNetworkInfo_def ni using l by simp
    then have "cloudInitDiscoverNetworkData e vmi w
                 = Return (([], [], Some (Error ''No SRIOV interfaces found'')), w')"
      unfolding cloudInitDiscoverNetworkData_def by simp
    with h show ?thesis by blast
  qed
  show ?thesis using panics empty by blast
qed

theorem discovery_error_panics_witness:
  "json_Unmarshal_vmi exampleEnv ''vmi_plain'' = Inr vmi_plain
   \<and> json_Unmarshal_cloudInit exampleEnv ''{}'' = Inr emptyCloudInit
   \<and> vmi_Interfaces vmi_plain = [bridgeInterface ''pod'']
   \<and> iface_SRIOV (bridgeInterface ''pod'') = None
   \<and> PreCloudInitIso exampleEnv \<lparr>params_CloudInitData = ''{}'', params_Vmi = ''vmi_plain''\<rparr> world0
       = Panic (Error ''No SRIOV interfaces found'')"
proof -
  let ?p = "\<lparr>params_CloudInitData = ''{}'', params_Vmi = ''vmi_plain''\<rparr>"
  have h1: "json_Unmarshal_vmi exampleEnv (params_Vmi ?p) = Inr vmi_plain"
    by (simp add: exampleEnv_json_Unmarshal_vmi)
  have h2: "json_Unmarshal_cloudInit exampleEnv (params_CloudInitData ?p) = Inr emptyCloudInit"
    by (simp add: exampleEnv_json_Unmarshal_cloudInit)
  have h3: "NetworkData emptyCloudInit = []" and h4: "NetworkDataBase64 emptyCloudInit = []"
    and h5: "NetworkDataSecretRef emptyCloudInit = None"
    by (simp_all add: emptyCloudInit_def)
  have h6: "\<forall>i\<in>set (vmi_Interfaces vmi_plain).
              iface_SRIOV i = None \<and> iface_Name i \<in> net_Name ` set (vmi_Networks vmi_plain)"
    by (simp add: vmi_plain_def bridgeInterface_def podNetwork_def)
  from discovery_error_panics [OF h1 h2 h3 h4 h5, of world0] h6
  have "PreCloudInitIso exampleEnv ?p world0 = Panic (Error ''No SRIOV interfaces found'')"
    by blast
  with h1 h2 show ?thesis
    by (simp add: vmi_plain_def bridgeInterface_def)
qed

text \<open>
  Claim C1 as stated fails: for a VM with a single bridge interface on the pod network
  the handler does not return; it panics with the distinguished error.
\<close>

theorem no_sriov_returned_counterexample:
  "PreCloudInitIso exampleEnv \<lparr>params_CloudInitData = ''{}'', params_Vmi = ''vmi_plain''\<rparr> world0
     = Panic (Error ''No SRIOV interfaces found'')"
  by code_simp

text \<open>
  Claim C6, as amended. The interfaces are processed in declaration order. When a domain
  interface references a network name that no declared network carries, and the
  interfaces before the first such one have been processed without an error, the
  pipeline fails with the error \<open>failed to find network\<close> followed by that name, in
  the state those earlier interfaces left: no host query is made for the unresolved
  interface or a later one. When every earlier interface resolves and is not SR-IOV, no
  host query has been made at all.
\<close>

theorem undeclared_network_fails:
  assumes split: "vmi_Interfaces vmi = pre @ bad # post"
    and bad: "iface_Name bad \<notin> net_Name ` set (vmi_Networks vmi)"
  shows "((\<forall>i\<in>set pre. iface_SRIOV i = None
                \<and> iface_Name i \<in> net_Name ` set (vmi_Networks vmi))
          \<longrightarrow> (\<exists>w'. cloudInitDiscoverNetworkData e vmi w
                = Return (([], [], Some (Error (''failed to find network '' @ iface_Name bad))), w')
              \<and> hostCalls w' = hostCalls w))
       \<and> (\<forall>v w1. getSriovNetworkInfo_loop e (fst (setNetworkInfo vmi)) (snd (setNetworkInfo vmi))
                     pre [] w = ((v, None), w1)
            \<longrightarrow> cloudInitDiscoverNetworkData e vmi w
                = Return (([], [], Some (Error (''failed to find network '' @ iface_Name bad))), w1))"
proof -
  obtain networks cni where ni: "setNetworkInfo vmi = (networks, cni)"
    by (cases "setNetworkInfo vmi")
  have nb: "map_of networks (iface_Name bad) = None"
    using bad networks_of_setNetworkInfo [of vmi] ni by simp
  have general: "cloudInitDiscoverNetworkData e vmi w
                = Return (([], [], Some (Error (''failed to find network '' @ iface_Name bad))), w1)"
    if l: "getSriovNetworkInfo_loop e networks cni pre [] w = ((v, None), w1)" for v w1
  proof -
    have "getSriovNetworkInfo_loop e networks cni (vmi_Interfaces vmi) [] w
          = ((v, Some (Error (''failed to find network '' @ iface_Name bad))), w1)"
      unfolding split loop_append l using nb by simp
    then have "getSriovNetworkInfo e vmi w
          = ((v, Some (Error (''failed to find network '' @ iface_Name bad))), w1)"
      unfolding getSriovNetworkInfo_def ni by simp
    then show ?thesis
      unfolding cloudInitDiscoverNetworkData_def by simp
  qed
  have quiet: "\<exists>w'. cloudInitDiscoverNetworkData e vmi w
                = Return (([], [], Some (Error (''failed to find network '' @ iface_Name bad))), w')
              \<and> hostCalls w' = hostCalls w"
    if pre: "\<forall>i\<in>set pre. iface_SRIOV i = None
                \<and> iface_Name i \<in> net_Name ` set (vmi_Networks vmi)"
  proof -
    have "\<forall>i\<in>set pre. iface_SRIOV i = None \<and> map_of networks (iface_Name i) \<noteq> None"
      using pre networks_of_setNetworkInfo [of vmi] ni by simp
    from loop_without_sriov [OF this, of e cni "[]" w] obtain w' where
      l: "getSriovNetworkInfo_loop e networks cni pre [] w = (([], None), w')"
      and h: "hostCalls w' = hostCalls w" by blast
    from general [OF l] h show ?thesis by blast
  qed
  show ?thesis using general quiet by (simp add: ni)
qed

theorem undeclared_network_fails_witness:
  "vmi_Interfaces vmi_ghost_first
     = [bridgeInterface ''pod''] @ sriovInterface ''ghost'' # [sriovInterface ''sriov'']
   \<and> iface_Name (sriovInterface ''ghost'') \<notin> net_Name ` set (vmi_Networks vmi_ghost_first)
   \<and> (\<exists>w'. cloudInitDiscoverNetworkData exampleEnv vmi_ghost_first world0
               = Return (([], [], Some (Error ''failed to find network ghost'')), w')
             \<and> hostCalls w' = [])"
proof -
  have h1: "vmi_Interfaces vmi_ghost_first
              = [bridgeInterface ''pod''] @ sriovInterface ''ghost'' # [sriovInterface ''sriov'']"
    by (simp add: vmi_ghost_first_def)
  have h2: "iface_Name (sriovInterface ''ghost'') \<notin> net_Name ` set (vmi_Networks vmi_ghost_first)"
    by (simp add: vmi_ghost_first_def sriovInterface_def podNetwork_def multusNetwork_def)
  have h3: "\<forall>i\<in>set [bridgeInterface ''pod'']. iface_SRIOV i = None
              \<and> iface_Name i \<in> net_Name ` set (vmi_Networks vmi_ghost_first)"
    by (simp add: vmi_ghost_first_def bridgeInterface_def podNetwork_def)
  from undeclared_network_fails [OF h1 h2, of exampleEnv world0] h3
  have "\<exists>w'. cloudInitDiscoverNetworkData exampleEnv vmi_ghost_first world0
               = Return (([], [], Some (Error (''failed to find network ''
                                                @ iface_Name (sriovInterface ''ghost'')))), w')
             \<and> hostCalls w' = hostCalls world0"
    by blast
  then have "\<exists>w'. cloudInitDiscoverNetworkData exampleEnv vmi_ghost_first world0
               = Return (([], [], Some (Error ''failed to find network ghost'')), w')
             \<and> hostCalls w' = []"
    by (simp add: sriovInterface_def world0_def)
  with h1 h2 show ?thesis by blast
qed

text \<open>
  Claim C6 as stated fails: when an SR-IOV interface precedes the unresolved reference,
  its four host queries are made before the error is returned.
\<close>

theorem undeclared_after_sriov_counterexample:
  "cloudInitDiscoverNetworkData exampleEnv vmi_ghost world0
     = Return (([], [], Some (Error ''failed to find network ghost'')),
               \<lparr>disableResolv = False,
                hostCalls = [CallLinkByName ''eth0'', CallAddrList ''eth0'',
                             CallGetMacDetails ''eth0'', CallRouteList ''eth0'']\<rparr>)"
  by code_simp

section \<open>Link names\<close>

lemma getNetworkDetails_name:
  "getNetworkDetails e n w = ((d, None), w') \<Longrightarrow> vif_Name d = n"
  unfolding getNetworkDetails_def getNetworkDetails_routes_def zeroVIF_def
  by (auto simp: Let_def split: sum.splits list.splits if_splits)

lemma loop_names:
  "getSriovNetworkInfo_loop e networks cni ifs vifs w = ((out, None), w')
   \<Longrightarrow> map vif_Name out
       = map vif_Name vifs
         @ map (linkNameOf networks cni)
             (filter (\<lambda>i. iface_SRIOV i \<noteq> None \<and> map_of cni (iface_Name i) \<noteq> None) ifs)"
proof (induction ifs arbitrary: vifs w)
  case Nil
  then show ?case by simp
next
  case (Cons i ifs)
  from Cons.prems obtain net where net: "map_of networks (iface_Name i) = Some net"
    by (cases "map_of networks (iface_Name i)") auto
  let ?w1 = "if iface_Bridge i \<noteq> None \<or> iface_Masquerade i \<noteq> None
             then w\<lparr>disableResolv := True\<rparr> else w"
  show ?case
  proof (cases "iface_SRIOV i \<noteq> None \<and> map_of cni (iface_Name i) \<noteq> None")
    case False
    then have "getSriovNetworkInfo_loop e networks cni (i # ifs) vifs w
                 = getSriovNetworkInfo_loop e networks cni ifs vifs ?w1"
      using net by (auto simp: Let_def split: option.splits)
    with Cons.prems have "getSriovNetworkInfo_loop e networks cni ifs vifs ?w1 = ((out, None), w')"
      by simp
    from Cons.IH [OF this] False show ?thesis by simp
  next
    case True
    then obtain val where val: "map_of cni (iface_Name i) = Some val" and sr: "iface_SRIOV i \<noteq> None"
      by auto
    obtain d err w2 where nd: "getNetworkDetails e (linkPrefix net @ Sprintf_d val) ?w1 = ((d, err), w2)"
      by (metis prod.exhaust)
    show ?thesis
    proof (cases err)
      case (Some x)
      with Cons.prems net val sr nd show ?thesis by (simp add: Let_def)
    next
      case None
      with Cons.prems net val sr nd
      have "getSriovNetworkInfo_loop e networks cni ifs (vifs @ [d]) w2 = ((out, None), w')"
        by (simp add: Let_def)
      from Cons.IH [OF this] have "map vif_Name out = map vif_Name (vifs @ [d]) @
         map (linkNameOf networks cni)
             (filter (\<lambda>i. iface_SRIOV i \<noteq> None \<and> map_of cni (iface_Name i) \<noteq> None) ifs)" .
      moreover have "vif_Name d = linkNameOf networks cni i"
        using getNetworkDetails_name nd None net val unfolding linkNameOf_def by simp
      ultimately show ?thesis using True by simp
    qed
  qed
qed

lemma loop_success_declared:
  "getSriovNetworkInfo_loop e networks cni ifs vifs w = ((out, None), w')
   \<Longrightarrow> \<forall>i\<in>set ifs. map_of networks (iface_Name i) \<noteq> None"
proof (induction ifs arbitrary: vifs w)
  case Nil
  then show ?case by simp
next
  case (Cons i ifs)
  from Cons.prems obtain net where net: "map_of networks (iface_Name i) = Some net"
    by (cases "map_of networks (iface_Name i)") auto
  from Cons.prems net obtain v1 w1 where
    "getSriovNetworkInfo_loop e networks cni ifs v1 w1 = ((out, None), w')"
    by (auto simp: Let_def split: option.splits if_splits prod.splits)
  from Cons.IH [OF this] net show ?case by simp
qed

lemma Sprintf_d_small: "Sprintf_d 0 = ''0''" "Sprintf_d 1 = ''1''" "Sprintf_d 2 = ''2''"
  by (simp_all add: Sprintf_d_def nat_dec.simps)

lemma getSriovNetworkInfo_success:
  "getSriovNetworkInfo e vmi w = ((vifs, None), w')
   \<Longrightarrow> getSriovNetworkInfo_loop e (fst (setNetworkInfo vmi)) (snd (setNetworkInfo vmi))
         (vmi_Interfaces vmi) [] w = ((vifs, None), w')"
proof -
  assume ok: "getSriovNetworkInfo e vmi w = ((vifs, None), w')"
  obtain networks cni where ni: "setNetworkInfo vmi = (networks, cni)"
    by (cases "setNetworkInfo vmi")
  obtain v err w1 where l: "getSriovNetworkInfo_loop e networks cni (vmi_Interfaces vmi) [] w
                              = ((v, err), w1)"
    by (metis prod.exhaust)
  from ok have "err = None \<and> v = vifs \<and> w1 = w'"
    unfolding getSriovNetworkInfo_def ni
    by (cases err) (auto simp: l split: if_splits)
  with l show ?thesis by (simp add: ni)
qed

text \<open>
  Claim C5. The suffix indices depend on the declared networks alone: for a VM
  declaring the Multus networks A (default), B and C, in this order and under distinct
  names, \<open>setNetworkInfo\<close> assigns 0, 1 and 2, whatever the domain interfaces are and
  in whatever order they reference the networks; and when the discovery succeeds, the
  link names of the SR-IOV interfaces are, in interface order, \<open>eth0\<close> for A,
  \<open>net1\<close> for B and \<open>net2\<close> for C. For every VM, the link name of an SR-IOV
  interface on a Multus or Genie network is the prefix of its network followed by the
  decimal index: \<open>eth\<close> for the default Multus network and for a Genie network,
  \<open>net\<close> for a Multus network that is not the default.
\<close>

theorem link_name_indices:
  assumes nets: "vmi_Networks vmi = [A, B, C]"
    and A: "net_Multus A = Some mA" "multus_Default mA" "net_Genie A = None"
    and B: "net_Multus B = Some mB" "\<not> multus_Default mB" "net_Genie B = None"
    and C: "net_Multus C = Some mC" "\<not> multus_Default mC" "net_Genie C = None"
    and dist: "distinct [net_Name A, net_Name B, net_Name C]"
  shows "snd (setNetworkInfo vmi) = [(net_Name A, 0), (net_Name B, 1), (net_Name C, 2)]
    \<and> (\<forall>vifs w'. getSriovNetworkInfo e vmi w = ((vifs, None), w') \<longrightarrow>
          map vif_Name vifs
            = map (\<lambda>i. if iface_Name i = net_Name A then ''eth0''
                        else if iface_Name i = net_Name B then ''net1'' else ''net2'')
                (filter (\<lambda>i. iface_SRIOV i \<noteq> None) (vmi_Interfaces vmi)))
    \<and> (\<forall>vmi' vifs w'. getSriovNetworkInfo e vmi' w = ((vifs, None), w') \<longrightarrow>
          map vif_Name vifs
            = map (\<lambda>i. linkPrefix (the (map_of (fst (setNetworkInfo vmi')) (iface_Name i)))
                        @ Sprintf_d (the (map_of (snd (setNetworkInfo vmi')) (iface_Name i))))
                (filter (\<lambda>i. iface_SRIOV i \<noteq> None
                              \<and> map_of (snd (setNetworkInfo vmi')) (iface_Name i) \<noteq> None)
                   (vmi_Interfaces vmi')))
    \<and> (\<forall>n. linkPrefix n =
              (case net_Multus n of
                 Some m \<Rightarrow> if multus_Default m then ''eth'' else ''net''
               | None \<Rightarrow> if net_Genie n = None then [] else ''eth''))"
proof -
  have cni: "snd (setNetworkInfo vmi) = [(net_Name A, 0), (net_Name B, 1), (net_Name C, 2)]"
    and networks: "fst (setNetworkInfo vmi) = [(net_Name A, A), (net_Name B, B), (net_Name C, C)]"
    using dist unfolding setNetworkInfo_def nets by (simp_all add: A B C)
  have general: "map vif_Name vifs
            = map (\<lambda>i. linkPrefix (the (map_of (fst (setNetworkInfo vmi')) (iface_Name i)))
                        @ Sprintf_d (the (map_of (snd (setNetworkInfo vmi')) (iface_Name i))))
                (filter (\<lambda>i. iface_SRIOV i \<noteq> None
                              \<and> map_of (snd (setNetworkInfo vmi')) (iface_Name i) \<noteq> None)
                   (vmi_Interfaces vmi'))"
    if "getSriovNetworkInfo e vmi' w = ((vifs, None), w')" for vmi' vifs w'
    using loop_names [OF getSriovNetworkInfo_success [OF that]]
    unfolding linkNameOf_def by simp
  have scenario: "map vif_Name vifs
            = map (\<lambda>i. if iface_Name i = net_Name A then ''eth0''
                        else if iface_Name i = net_Name B then ''net1'' else ''net2'')
                (filter (\<lambda>i. iface_SRIOV i \<noteq> None) (vmi_Interfaces vmi))"
    if ok: "getSriovNetworkInfo e vmi w = ((vifs, None), w')" for vifs w'
  proof -
    have decl: "\<forall>i\<in>set (vmi_Interfaces vmi).
                  iface_Name i = net_Name A \<or> iface_Name i = net_Name B \<or> iface_Name i = net_Name C"
      using loop_success_declared [OF getSriovNetworkInfo_success [OF ok]]
      unfolding networks by (auto split: if_splits)
    have f: "filter (\<lambda>i. iface_SRIOV i \<noteq> None
                          \<and> map_of (snd (setNetworkInfo vmi)) (iface_Name i) \<noteq> None)
               (vmi_Interfaces vmi)
             = filter (\<lambda>i. iface_SRIOV i \<noteq> None) (vmi_Interfaces vmi)"
      using decl unfolding cni by (intro filter_cong) auto
    have m: "linkPrefix (the (map_of (fst (setNetworkInfo vmi)) (iface_Name i)))
               @ Sprintf_d (the (map_of (snd (setNetworkInfo vmi)) (iface_Name i)))
             = (if iface_Name i = net_Name A then ''eth0''
                        else if iface_Name i = net_Name B then ''net1'' else ''net2'')"
      if "i \<in> set (vmi_Interfaces vmi)" for i
      using decl that dist unfolding cni networks
      by (auto simp: linkPrefix_def A B C Sprintf_d_small)
    show ?thesis
      unfolding general [OF ok] f using m by (intro map_cong) auto
  qed
  have pre: "linkPrefix n =
              (case net_Multus n of
                 Some m \<Rightarrow> if multus_Default m then ''eth'' else ''net''
               | None \<Rightarrow> if net_Genie n = None then [] else ''eth'')" for n
    unfolding linkPrefix_def by (auto split: option.splits)
  show ?thesis using cni general scenario pre by blast
qed

theorem link_name_indices_witness:
  "vmi_Networks vmi_three = [multusNetwork ''A'' True, multusNetwork ''B'' False, multusNetwork ''C'' False]
   \<and> map iface_Name (vmi_Interfaces vmi_three) = [''C'', ''A'', ''B'']
   \<and> snd (setNetworkInfo vmi_three) = [(''A'', 0), (''B'', 1), (''C'', 2)]
   \<and> snd (fst (getSriovNetworkInfo exampleEnv vmi_three world0)) = None
   \<and> map vif_Name (fst (fst (getSriovNetworkInfo exampleEnv vmi_three world0)))
       = [''net2'', ''eth0'', ''net1'']"
proof -
  let ?A = "multusNetwork ''A'' True" and ?B = "multusNetwork ''B'' False"
    and ?C = "multusNetwork ''C'' False"
  have nets: "vmi_Networks vmi_three = [?A, ?B, ?C]" by (simp add: vmi_three_def)
  have ifs: "vmi_Interfaces vmi_three = [sriovInterface ''C'', sriovInterface ''A'', sriovInterface ''B'']"
    by (simp add: vmi_three_def)
  have A: "net_Multus ?A = Some \<lparr>multus_NetworkName = ''A'', multus_Default = True\<rparr>"
    "multus_Default \<lparr>multus_NetworkName = ''A'', multus_Default = True\<rparr>" "net_Genie ?A = None"
    by (simp_all add: multusNetwork_def)
  have B: "net_Multus ?B = Some \<lparr>multus_NetworkName = ''B'', multus_Default = False\<rparr>"
    "\<not> multus_Default \<lparr>multus_NetworkName = ''B'', multus_Default = False\<rparr>" "net_Genie ?B = None"
    by (simp_all add: multusNetwork_def)
  have C: "net_Multus ?C = Some \<lparr>multus_NetworkName = ''C'', multus_Default = False\<rparr>"
    "\<not> multus_Default \<lparr>multus_NetworkName = ''C'', multus_Default = False\<rparr>" "net_Genie ?C = None"
    by (simp_all add: multusNetwork_def)
  have dist: "distinct [net_Name ?A, net_Name ?B, net_Name ?C]"
    by (simp add: multusNetwork_def)
  have ok: "snd (fst (getSriovNetworkInfo exampleEnv vmi_three world0)) = None"
    by code_simp
  then obtain vifs w' where run: "getSriovNetworkInfo exampleEnv vmi_three world0 = ((vifs, None), w')"
    by (metis prod.collapse)
  note inst = link_name_indices [OF nets A B C dist, of exampleEnv world0]
  from inst have idx: "snd (setNetworkInfo vmi_three) = [(''A'', 0), (''B'', 1), (''C'', 2)]"
    by (simp add: multusNetwork_def)
  from inst run have "map vif_Name vifs
      = map (\<lambda>i. if iface_Name i = net_Name ?A then ''eth0''
                  else if iface_Name i = net_Name ?B then ''net1'' else ''net2'')
          (filter (\<lambda>i. iface_SRIOV i \<noteq> None) (vmi_Interfaces vmi_three))"
    by blast
  then have names: "map vif_Name (fst (fst (getSriovNetworkInfo exampleEnv vmi_three world0)))
       = [''net2'', ''eth0'', ''net1'']"
    unfolding run ifs by (simp add: sriovInterface_def multusNetwork_def)
  from nets ifs idx ok names show ?thesis by (simp add: sriovInterface_def)
qed

section \<open>Route synthesis\<close>

lemma IP_Equal_nil: "IP_Equal x None \<longleftrightarrow> length (IP_bytes x) = 0"
  unfolding IP_Equal_def IP_bytes_def by (auto simp: Let_def split: option.splits)

lemma routesLoop_spec:
  assumes "addr_IPNet ip = Some n"
  shows "routesLoop e ip rs sn acc
     = Return (sn\<lparr>sn_Gateway :=
                   (case filter (\<lambda>r. route_Dst r = None) (spec_keptRoutes (ipnet_IP n) rs) of
                      [] \<Rightarrow> sn_Gateway sn
                    | r # rs' \<Rightarrow> IP_String e (route_Gw (last (r # rs'))))\<rparr>,
               acc @ spec_routeList e (ipnet_IP n) rs)"
proof (induction rs arbitrary: sn acc)
  case Nil
  then show ?case by (simp add: spec_keptRoutes_def spec_routeList_def)
next
  case (Cons r rs)
  show ?case
  proof (cases "isPlaceholderRoute r")
    case True
    then have "spec_keptRoutes (ipnet_IP n) (r # rs) = spec_keptRoutes (ipnet_IP n) rs"
      unfolding spec_keptRoutes_def isPlaceholderRoute_def IP_Equal_nil by simp
    then show ?thesis
      using True Cons.IH by (simp add: spec_routeList_def)
  next
    case np: False
    show ?thesis
    proof (cases "route_Src r \<noteq> None \<and> IP_Equal (route_Src r) (ipnet_IP n)")
      case True
      then have k: "spec_keptRoutes (ipnet_IP n) (r # rs) = spec_keptRoutes (ipnet_IP n) rs"
        unfolding spec_keptRoutes_def by simp
      from True have "isSelfRoute ip r = Return True"
        unfolding isSelfRoute_def using assms by simp
      then show ?thesis
        using np Cons.IH k by (simp add: spec_routeList_def)
    next
      case False
      then have self: "isSelfRoute ip r = Return False"
        unfolding isSelfRoute_def using assms by auto
      from False np have k: "spec_keptRoutes (ipnet_IP n) (r # rs) = r # spec_keptRoutes (ipnet_IP n) rs"
        unfolding spec_keptRoutes_def isPlaceholderRoute_def IP_Equal_nil by auto
      show ?thesis
      proof (cases "route_Dst r")
        case None
        then show ?thesis
          using np self k Cons.IH
          by (auto simp: spec_routeList_def split: list.splits)
      next
        case (Some dst)
        have "toSubnetRoute e dst r
               = \<lparr>sr_Network = IP_String e (ipnet_IP dst),
                  sr_Netmask = IP_String e (ipnet_Mask dst),
                  sr_Gateway = (case route_Gw r of None \<Rightarrow> []
                                            | Some g \<Rightarrow> IP_String e (route_Gw r))\<rparr>"
          unfolding toSubnetRoute_def by (simp split: option.splits)
        then show ?thesis
          using Some np self k Cons.IH
          by (simp add: spec_routeList_def)
      qed
    qed
  qed
qed

text \<open>
  Claim C4. For an interface with a primary address (its address does not render as
  \<open><nil>\<close>) the entry built by \<open>convertCloudInitNetworksToCloudInitNetConfig\<close>
  carries one static subnet whose gateway and route list are the ones the four rules
  of the specification give: placeholder routes and self-routes are dropped, the last
  remaining route without a destination gives the gateway and is not in the route
  list, and every other remaining route is an entry with network, netmask and, when
  present, gateway.
\<close>

theorem route_synthesis:
  assumes "Addr_String e (vif_IP vif) \<noteq> ''<nil>''"
    and "addr_IPNet (vif_IP vif) = Some primary"
    and "vif_Routes vif = Some routes"
  shows "convertVif e vif =
     Return (zeroNif\<lparr>nif_Name := vif_Name vif, nif_NetworkType := ''physical'',
                      nif_MacAddress := HardwareAddr_String e (vif_MAC vif),
                      nif_Mtu := vif_Mtu vif,
                      nif_Subnets :=
                        [\<lparr>sn_SubnetType = ''static'',
                          sn_Address = takeWhile (\<lambda>c. c \<noteq> CHR '' '') (Addr_String e (vif_IP vif)),
                          sn_Gateway = spec_gateway e (ipnet_IP primary) routes,
                          sn_Routes = spec_routeList e (ipnet_IP primary) routes\<rparr>]\<rparr>)"
  unfolding convertVif_def
  using assms
  by (simp add: routesLoop_spec [OF assms(2)] Let_def zeroNif_def zeroSubnet_def spec_gateway_def
         split: list.splits)

theorem route_synthesis_witness:
  "vif_IP example_vif = example_address
   \<and> Addr_String exampleEnv example_address = ''10.0.0.5/24''
   \<and> addr_IPNet (vif_IP example_vif)
        = Some \<lparr>ipnet_IP = Some [10, 0, 0, 5], ipnet_Mask = Some [255, 255, 255, 0]\<rparr>
   \<and> vif_Routes example_vif = Some example_routes
   \<and> spec_gateway exampleEnv (Some [10, 0, 0, 5]) example_routes = ''10.0.0.1''
   \<and> spec_routeList exampleEnv (Some [10, 0, 0, 5]) example_routes
        = [\<lparr>sr_Network = ''192.168.0.0'', sr_Netmask = ''255.255.0.0'', sr_Gateway = ''10.0.0.254''\<rparr>]
   \<and> convertVif exampleEnv example_vif =
       Return \<lparr>nif_NetworkType = ''physical'', nif_Name = ''eth0'',
               nif_MacAddress = ''aa:bb:cc:dd:ee:ff'', nif_Mtu = 1500,
               nif_Subnets =
                 [\<lparr>sn_SubnetType = ''static'', sn_Address = ''10.0.0.5/24'',
                   sn_Gateway = ''10.0.0.1'',
                   sn_Routes =
                     [\<lparr>sr_Network = ''192.168.0.0'', sr_Netmask = ''255.255.0.0'',
                       sr_Gateway = ''10.0.0.254''\<rparr>]\<rparr>],
               nif_Address = [], nif_Search = [], nif_Destination = [],
               nif_Gateway = [], nif_Metric = 0\<rparr>"
proof -
  let ?n = "\<lparr>ipnet_IP = Some [10, 0, 0, 5], ipnet_Mask = Some [255, 255, 255, 0]\<rparr>"
  have v: "vif_IP example_vif = example_address"
    by (simp add: example_vif_def)
  have s: "Addr_String exampleEnv example_address = ''10.0.0.5/24''"
    by code_simp
  have h1: "Addr_String exampleEnv (vif_IP example_vif) \<noteq> ''<nil>''"
    unfolding v s by simp
  have h2: "addr_IPNet (vif_IP example_vif) = Some ?n"
    by (simp add: example_vif_def example_address_def)
  have h3: "vif_Routes example_vif = Some example_routes"
    by (simp add: example_vif_def)
  have g: "spec_gateway exampleEnv (Some [10, 0, 0, 5]) example_routes = ''10.0.0.1''"
    by code_simp
  have r: "spec_routeList exampleEnv (Some [10, 0, 0, 5]) example_routes
        = [\<lparr>sr_Network = ''192.168.0.0'', sr_Netmask = ''255.255.0.0'', sr_Gateway = ''10.0.0.254''\<rparr>]"
    by code_simp
  have m: "HardwareAddr_String exampleEnv [0xaa, 0xbb, 0xcc, 0xdd, 0xee, 0xff]
             = ''aa:bb:cc:dd:ee:ff''"
    by code_simp
  have "convertVif exampleEnv example_vif =
       Return \<lparr>nif_NetworkType = ''physical'', nif_Name = ''eth0'',
               nif_MacAddress = ''aa:bb:cc:dd:ee:ff'', nif_Mtu = 1500,
               nif_Subnets =
                 [\<lparr>sn_SubnetType = ''static'', sn_Address = ''10.0.0.5/24'',
                   sn_Gateway = ''10.0.0.1'',
                   sn_Routes =
                     [\<lparr>sr_Network = ''192.168.0.0'', sr_Netmask = ''255.255.0.0'',
                       sr_Gateway = ''10.0.0.254''\<rparr>]\<rparr>],
               nif_Address = [], nif_Search = [], nif_Destination = [],
               nif_Gateway = [], nif_Metric = 0\<rparr>"
    using route_synthesis [OF h1 h2 h3]
    by (simp add: s g r m zeroNif_def example_vif_def)
  with v s h2 h3 g r show ?thesis by simp
qed

section \<open>State across requests\<close>

lemma getNetworkDetails_flag:
  "getNetworkDetails e n w = (r, w') \<Longrightarrow> disableResolv w' = disableResolv w"
  unfolding getNetworkDetails_def getNetworkDetails_routes_def logCall_def
  by (auto simp: Let_def split: sum.splits list.splits if_splits)

lemma loop_flag_kept:
  "disableResolv w \<Longrightarrow> getSriovNetworkInfo_loop e networks cni ifs vifs w = (r, w')
     \<Longrightarrow> disableResolv w'"
proof (induction ifs arbitrary: vifs w)
  case Nil
  then show ?case by simp
next
  case (Cons i ifs)
  show ?case
  proof (cases "map_of networks (iface_Name i)")
    case None
    with Cons.prems show ?thesis by simp
  next
    case (Some net)
    let ?w1 = "if iface_Bridge i \<noteq> None \<or> iface_Masquerade i \<noteq> None
               then w\<lparr>disableResolv := True\<rparr> else w"
    have f1: "disableResolv ?w1" using Cons.prems(1) by simp
    show ?thesis
    proof (cases "iface_SRIOV i \<noteq> None \<and> map_of cni (iface_Name i) \<noteq> None")
      case False
      then have "getSriovNetworkInfo_loop e networks cni (i # ifs) vifs w
                   = getSriovNetworkInfo_loop e networks cni ifs vifs ?w1"
        using Some by (auto simp: Let_def split: option.splits)
      with Cons.prems(2) Cons.IH [OF f1] show ?thesis by simp
    next
      case True
      then obtain val where val: "map_of cni (iface_Name i) = Some val"
        and sr: "iface_SRIOV i \<noteq> None" by auto
      obtain d err w2 where
        nd: "getNetworkDetails e (linkPrefix net @ Sprintf_d val) ?w1 = ((d, err), w2)"
        by (metis prod.exhaust)
      have f2: "disableResolv w2" using getNetworkDetails_flag [OF nd] f1 by simp
      show ?thesis
      proof (cases err)
        case (Some x)
        with Cons.prems(2) \<open>map_of networks (iface_Name i) = Some net\<close> val sr nd f2
        show ?thesis by (auto simp: Let_def)
      next
        case None
        with Cons.prems(2) \<open>map_of networks (iface_Name i) = Some net\<close> val sr nd
        have "getSriovNetworkInfo_loop e networks cni ifs (vifs @ [d]) w2 = (r, w')"
          by (simp add: Let_def)
        from Cons.IH [OF f2 this] show ?thesis .
      qed
    qed
  qed
qed

lemma getSriovNetworkInfo_flag_kept:
  assumes "disableResolv w" and "getSriovNetworkInfo e vmi w = (r, w')"
  shows "disableResolv w'"
proof -
  obtain networks cni where ni: "setNetworkInfo vmi = (networks, cni)"
    by (cases "setNetworkInfo vmi")
  obtain v err w1 where l: "getSriovNetworkInfo_loop e networks cni (vmi_Interfaces vmi) [] w
                              = ((v, err), w1)"
    by (metis prod.exhaust)
  from assms(2) have "w' = w1"
    unfolding getSriovNetworkInfo_def ni
    by (cases err) (auto simp: l split: if_splits)
  with loop_flag_kept [OF assms(1) l] show ?thesis by simp
qed

lemma discover_with_flag:
  assumes "disableResolv w"
    and "cloudInitDiscoverNetworkData e vmi w = Return ((n, r, err), w')"
  shows "disableResolv w' \<and> (err = None \<longrightarrow> r = [])"
proof -
  obtain v gerr w1 where g: "getSriovNetworkInfo e vmi w = ((v, gerr), w1)"
    by (metis prod.exhaust)
  have f1: "disableResolv w1" using getSriovNetworkInfo_flag_kept [OF assms(1) g] .
  then have m: "getCloudInitManageResolv e w1 = ((zeroManageResolv, None), w1)"
    unfolding getCloudInitManageResolv_def by simp
  show ?thesis
    using assms(2) f1 unfolding cloudInitDiscoverNetworkData_def g
    by (cases gerr)
       (auto simp: m zeroManageResolv_def split: if_splits outcome.splits prod.splits option.splits)
qed

lemma loop_sets_flag:
  "getSriovNetworkInfo_loop e networks cni ifs vifs w = ((out, None), w')
   \<Longrightarrow> \<exists>i\<in>set ifs. iface_Bridge i \<noteq> None \<or> iface_Masquerade i \<noteq> None
   \<Longrightarrow> disableResolv w'"
proof (induction ifs arbitrary: vifs w)
  case Nil
  then show ?case by simp
next
  case (Cons i ifs)
  from Cons.prems(1) obtain net where net: "map_of networks (iface_Name i) = Some net"
    by (cases "map_of networks (iface_Name i)") auto
  let ?w1 = "if iface_Bridge i \<noteq> None \<or> iface_Masquerade i \<noteq> None
             then w\<lparr>disableResolv := True\<rparr> else w"
  from Cons.prems(1) net obtain v1 w1 where
    rest: "getSriovNetworkInfo_loop e networks cni ifs v1 w1 = ((out, None), w')"
    and w1: "disableResolv w1 = disableResolv ?w1"
    by (auto simp: Let_def getNetworkDetails_flag split: option.splits if_splits prod.splits)
  show ?case
  proof (cases "iface_Bridge i \<noteq> None \<or> iface_Masquerade i \<noteq> None")
    case True
    then have "disableResolv w1" using w1 by simp
    from loop_flag_kept [OF this rest] show ?thesis .
  next
    case False
    with Cons.prems(2) have "\<exists>i\<in>set ifs. iface_Bridge i \<noteq> None \<or> iface_Masquerade i \<noteq> None"
      by auto
    from Cons.IH [OF rest this] show ?thesis .
  qed
qed

lemma discover_sets_flag:
  assumes "cloudInitDiscoverNetworkData e vmi w = Return ((n, r, None), w')"
    and "\<exists>i\<in>set (vmi_Interfaces vmi). iface_Bridge i \<noteq> None \<or> iface_Masquerade i \<noteq> None"
  shows "disableResolv w'"
proof -
  obtain v gerr w1 where g: "getSriovNetworkInfo e vmi w = ((v, gerr), w1)"
    by (metis prod.exhaust)
  from assms(1) have ok: "gerr = None"
    unfolding cloudInitDiscoverNetworkData_def g by (cases gerr) auto
  from getSriovNetworkInfo_success [OF g [unfolded ok]] loop_sets_flag assms(2)
  have f1: "disableResolv w1" by blast
  then have m: "getCloudInitManageResolv e w1 = ((zeroManageResolv, None), w1)"
    unfolding getCloudInitManageResolv_def by simp
  show ?thesis
    using assms(1) f1 unfolding cloudInitDiscoverNetworkData_def g ok
    by (auto simp: m zeroManageResolv_def split: if_splits outcome.splits prod.splits option.splits)
qed

text \<open>
  Claim C3 fails on the code. A request with a bridge or masquerade interface whose
  discovery succeeds leaves \<open>disableResolv\<close> set; and once it is set, every later
  request in the process finds it set, leaves it set, and gets an empty resolver
  document, whatever its own interfaces are. The claim expects the documents of a
  request not to depend on earlier requests.
\<close>

theorem disableResolv_outlives_request:
  "(\<forall>n r w'. (\<exists>i\<in>set (vmi_Interfaces vmiA). iface_Bridge i \<noteq> None \<or> iface_Masquerade i \<noteq> None)
        \<longrightarrow> cloudInitDiscoverNetworkData e vmiA w0 = Return ((n, r, None), w')
        \<longrightarrow> disableResolv w')
   \<and> (disableResolv w \<longrightarrow>
        (\<forall>n r w'. cloudInitDiscoverNetworkData e vmi w = Return ((n, r, None), w')
            \<longrightarrow> r = [] \<and> disableResolv w')
      \<and> (\<forall>doc err w'. PreCloudInitIso e params w = Return ((doc, err), w')
            \<longrightarrow> disableResolv w'))"
proof -
  have s: "disableResolv w'"
    if "\<exists>i\<in>set (vmi_Interfaces vmiA). iface_Bridge i \<noteq> None \<or> iface_Masquerade i \<noteq> None"
      and "cloudInitDiscoverNetworkData e vmiA w0 = Return ((n, r, None), w')" for n r w'
    using discover_sets_flag [OF that(2) that(1)] .
  have a: "r = [] \<and> disableResolv w'"
    if "disableResolv w" "cloudInitDiscoverNetworkData e vmi w = Return ((n, r, None), w')" for n r w'
    using discover_with_flag [OF that] by simp
  have b: "disableResolv w'"
    if f: "disableResolv w" and p: "PreCloudInitIso e params w = Return ((doc, err), w')" for doc err w'
  proof -
    from p obtain c v where gc: "getCloudInitData e params = Return (c, v)"
      unfolding PreCloudInitIso_def by (cases "getCloudInitData e params") auto
    show ?thesis
    proof (cases "NetworkData c \<noteq> [] \<or> NetworkDataBase64 c \<noteq> [] \<or> NetworkDataSecretRef c \<noteq> None")
      case True
      with p gc f show ?thesis unfolding PreCloudInitIso_def by auto
    next
      case False
      with p gc obtain n r w1 where
        d: "cloudInitDiscoverNetworkData e v w = Return ((n, r, None), w1)" and "w' = w1"
        unfolding PreCloudInitIso_def
        by (auto simp: Let_def split: outcome.splits prod.splits option.splits)
      with discover_with_flag [OF f d] show ?thesis by simp
    qed
  qed
  show ?thesis using s a b by blast
qed

theorem disableResolv_outlives_request_witness:
  "succeeded (PreCloudInitIso exampleEnv
                \<lparr>params_CloudInitData = ''{}'', params_Vmi = ''vmi_bridge_sriov''\<rparr> world0)
   \<and> disableResolv (stateAfter (PreCloudInitIso exampleEnv
                \<lparr>params_CloudInitData = ''{}'', params_Vmi = ''vmi_bridge_sriov''\<rparr> world0) world0)
   \<and> resolvDocument (cloudInitDiscoverNetworkData exampleEnv vmi_sriov world0)
       = ''manage_resolv_conf: true\<newline>resolv_conf:\<newline>  nameservers:\<newline>  - 8.8.8.8\<newline>  searchdomains:\<newline>  - example.com\<newline>''
   \<and> resolvDocument (cloudInitDiscoverNetworkData exampleEnv vmi_sriov
         (stateAfter (PreCloudInitIso exampleEnv
                \<lparr>params_CloudInitData = ''{}'', params_Vmi = ''vmi_bridge_sriov''\<rparr> world0) world0))
       = []
   \<and> succeeded (PreCloudInitIso exampleEnv
                \<lparr>params_CloudInitData = ''{}'', params_Vmi = ''vmi_sriov''\<rparr> world0)
   \<and> succeeded (PreCloudInitIso exampleEnv
                \<lparr>params_CloudInitData = ''{}'', params_Vmi = ''vmi_sriov''\<rparr>
         (stateAfter (PreCloudInitIso exampleEnv
                \<lparr>params_CloudInitData = ''{}'', params_Vmi = ''vmi_bridge_sriov''\<rparr> world0) world0))
   \<and> response (PreCloudInitIso exampleEnv
                \<lparr>params_CloudInitData = ''{}'', params_Vmi = ''vmi_sriov''\<rparr> world0)
     \<noteq> response (PreCloudInitIso exampleEnv
                \<lparr>params_CloudInitData = ''{}'', params_Vmi = ''vmi_sriov''\<rparr>
         (stateAfter (PreCloudInitIso exampleEnv
                \<lparr>params_CloudInitData = ''{}'', params_Vmi = ''vmi_bridge_sriov''\<rparr> world0) world0))"
proof -
  let ?pA = "\<lparr>params_CloudInitData = ''{}'', params_Vmi = ''vmi_bridge_sriov''\<rparr>"
  let ?pB = "\<lparr>params_CloudInitData = ''{}'', params_Vmi = ''vmi_sriov''\<rparr>"
  let ?wA = "\<lparr>disableResolv = True,
              hostCalls = [CallLinkByName ''eth0'', CallAddrList ''eth0'',
                           CallGetMacDetails ''eth0'', CallRouteList ''eth0'']\<rparr>"
  have a1: "succeeded (PreCloudInitIso exampleEnv ?pA world0)" by code_simp
  have a2: "stateAfter (PreCloudInitIso exampleEnv ?pA world0) world0 = ?wA" by code_simp
  have flag: "disableResolv ?wA" by simp
  have b1: "resolvDocument (cloudInitDiscoverNetworkData exampleEnv vmi_sriov world0)
       = ''manage_resolv_conf: true\<newline>resolv_conf:\<newline>  nameservers:\<newline>  - 8.8.8.8\<newline>  searchdomains:\<newline>  - example.com\<newline>''"
    by code_simp
  have ok: "(case cloudInitDiscoverNetworkData exampleEnv vmi_sriov ?wA of
               Return ((n, r, None), w') \<Rightarrow> True | _ \<Rightarrow> False)"
    by code_simp
  then obtain n r w' where
    run: "cloudInitDiscoverNetworkData exampleEnv vmi_sriov ?wA = Return ((n, r, None), w')"
    by (auto split: outcome.splits prod.splits option.splits)
  from disableResolv_outlives_request [where e = exampleEnv and w = "?wA" and vmi = vmi_sriov]
    flag run
  have "r = []" by blast
  then have b2: "resolvDocument (cloudInitDiscoverNetworkData exampleEnv vmi_sriov ?wA) = []"
    unfolding run resolvDocument_def by simp
  have c1: "succeeded (PreCloudInitIso exampleEnv ?pB world0)" by code_simp
  have c2: "succeeded (PreCloudInitIso exampleEnv ?pB ?wA)" by code_simp
  have c3: "response (PreCloudInitIso exampleEnv ?pB world0)
              \<noteq> response (PreCloudInitIso exampleEnv ?pB ?wA)" by code_simp
  from a1 flag b1 b2 c1 c2 c3 show ?thesis unfolding a2 by blast
qed

end
